theory Spec2Isabelle
  imports Complex_Main
begin

section \<open>Go values shared by the models\<close>

text \<open>
  A Go \<open>error\<close> value that is not \<open>nil\<close> is identified by its message; an
  \<open>error\<close> that may be \<open>nil\<close> is an \<open>error option\<close> (\<open>None\<close> is \<open>nil\<close>).
  A Go \<open>string\<close> is its sequence of bytes, a \<open>string\<close> of HOL.
\<close>

datatype error = Error string

section \<open>The metrics middleware (internal/httpx/metrics.go)\<close>

subsection \<open>Instruments and measurements\<close>

text \<open>
  \<open>init\<close> asks the meter for two \<open>Int64Counter\<close>s and one \<open>Float64Histogram\<close> and
  keeps them in three package variables; the error of each creation is dropped. An
  instrument is its kind, name and description. What the middleware does with an
  instrument is a call of \<open>Add\<close> or \<open>Record\<close>; the meter is the sequence of those
  calls, the newest last.
\<close>

datatype instrument =
    Int64Counter string string
  | Float64Histogram string string

definition reqCounter :: instrument where
  "reqCounter = Int64Counter ''http.server.requests'' ''Total number of HTTP requests''"

definition errCounter :: instrument where
  "errCounter = Int64Counter ''http.server.errors''
     ''Total number of HTTP error responses (status >= 400)''"

definition latencyHistogram :: instrument where
  "latencyHistogram = Float64Histogram ''http.server.duration.ms''
     ''Request duration in milliseconds''"

datatype attr_value = attribute_String string | attribute_Int int

type_synonym KeyValue = "string \<times> attr_value"

datatype measurement =
    Counter_Add instrument int "KeyValue list"
  | Histogram_Record instrument real "KeyValue list"

fun on_instrument :: "measurement \<Rightarrow> instrument" where
  "on_instrument (Counter_Add i _ _) = i"
| "on_instrument (Histogram_Record i _ _) = i"

fun attributes_of :: "measurement \<Rightarrow> KeyValue list" where
  "attributes_of (Counter_Add _ _ kvs) = kvs"
| "attributes_of (Histogram_Record _ _ kvs) = kvs"

definition recorded_on :: "instrument \<Rightarrow> measurement list \<Rightarrow> measurement list" where
  "recorded_on i ms = filter (\<lambda>m. on_instrument m = i) ms"

subsection \<open>The clock\<close>

text \<open>
  \<open>time.Now()\<close> carries a reading of the monotonic clock and \<open>time.Since\<close> subtracts
  two such readings, so the world holds that clock, in nanoseconds. A \<open>time.Duration\<close>
  is an \<open>int64\<close> count of nanoseconds; \<open>Milliseconds\<close> is \<open>int64(d) / 1e6\<close>, and Go's
  integer division truncates towards zero. \<open>float64\<close> of an \<open>int64\<close> below \<open>2^53\<close> in
  absolute value is that integer exactly, which every millisecond count of an \<open>int64\<close>
  duration is (\<open>Milliseconds_exact\<close> below), so the conversion is \<open>of_int\<close>.
\<close>

type_synonym Duration = int

record world =
  clock :: int
  meter :: "measurement list"

definition Now :: "world \<Rightarrow> int" where
  "Now \<sigma> = clock \<sigma>"

definition Since :: "int \<Rightarrow> world \<Rightarrow> Duration" where
  "Since start \<sigma> = clock \<sigma> - start"

definition Milliseconds :: "Duration \<Rightarrow> int" where
  "Milliseconds d = (if 0 \<le> d then d div 1000000 else - ((- d) div 1000000))"

definition float64 :: "int \<Rightarrow> real" where
  "float64 n = of_int n"

subsection \<open>Requests, handlers and the status-capturing writer\<close>

record request =
  Method :: string
  Path :: string

text \<open>
  A handler is given the writer and the request. What the middleware can see of its
  run is the sequence of calls it makes on the writer and the time the monotonic clock
  advances while it runs. This section is the handler that returns; the one that
  panics comes after it, in \<open>MetricsMiddleware_served\<close>. The outer
  \<open>http.ResponseWriter\<close> is the sequence of calls that reach it.
\<close>

datatype writer_call = WriteHeader_call int | Write_call string

type_synonym ResponseWriter = "writer_call list"

record handler_run =
  calls :: "writer_call list"
  elapsed :: nat

type_synonym Handler = "request \<Rightarrow> handler_run"

record statusCapturingWriter =
  ResponseWriter :: ResponseWriter
  status :: int

definition StatusOK :: int where
  "StatusOK = 200"

definition WriteHeader :: "int \<Rightarrow> statusCapturingWriter \<Rightarrow> statusCapturingWriter" where
  "WriteHeader code w =
     w\<lparr>status := code, ResponseWriter := ResponseWriter w @ [WriteHeader_call code]\<rparr>"

text \<open>
  \<open>Write\<close> is not defined on \<open>statusCapturingWriter\<close>: the call is promoted to the
  embedded writer and leaves \<open>status\<close> alone.
\<close>

definition Write :: "string \<Rightarrow> statusCapturingWriter \<Rightarrow> statusCapturingWriter" where
  "Write b w = w\<lparr>ResponseWriter := ResponseWriter w @ [Write_call b]\<rparr>"

fun perform :: "writer_call \<Rightarrow> statusCapturingWriter \<Rightarrow> statusCapturingWriter" where
  "perform (WriteHeader_call code) w = WriteHeader code w"
| "perform (Write_call b) w = Write b w"

definition ServeHTTP ::
  "Handler \<Rightarrow> statusCapturingWriter \<Rightarrow> request \<Rightarrow> world \<Rightarrow> statusCapturingWriter \<times> world" where
  "ServeHTTP next sw r \<sigma> =
     (fold perform (calls (next r)) sw, \<sigma>\<lparr>clock := clock \<sigma> + int (elapsed (next r))\<rparr>)"

subsection \<open>MetricsMiddleware\<close>

definition Add :: "instrument \<Rightarrow> int \<Rightarrow> KeyValue list \<Rightarrow> world \<Rightarrow> world" where
  "Add i n kvs \<sigma> = \<sigma>\<lparr>meter := meter \<sigma> @ [Counter_Add i n kvs]\<rparr>"

definition Record :: "instrument \<Rightarrow> real \<Rightarrow> KeyValue list \<Rightarrow> world \<Rightarrow> world" where
  "Record i x kvs \<sigma> = \<sigma>\<lparr>meter := meter \<sigma> @ [Histogram_Record i x kvs]\<rparr>"

definition MetricsMiddleware ::
  "Handler \<Rightarrow> ResponseWriter \<Rightarrow> request \<Rightarrow> world \<Rightarrow> ResponseWriter \<times> world" where
  "MetricsMiddleware next w r \<sigma> =
     (let start = Now \<sigma>;
          sw = \<lparr>ResponseWriter = w, status = StatusOK\<rparr>;
          (sw, \<sigma>) = ServeHTTP next sw r \<sigma>;
          attrs = [(''http.method'', attribute_String (Method r)),
                   (''http.route'', attribute_String (Path r)),
                   (''http.status_code'', attribute_Int (status sw))];
          \<sigma> = Add reqCounter 1 attrs \<sigma>;
          \<sigma> = Record latencyHistogram (float64 (Milliseconds (Since start \<sigma>))) attrs \<sigma>;
          \<sigma> = (if status sw \<ge> 400 then Add errCounter 1 attrs \<sigma> else \<sigma>)
      in (ResponseWriter sw, \<sigma>))"

text \<open>What a request adds to the meter, and the status and attributes it is tagged with.\<close>

definition captured_status :: "Handler \<Rightarrow> request \<Rightarrow> int" where
  "captured_status next r =
     status (fold perform (calls (next r)) \<lparr>ResponseWriter = [], status = StatusOK\<rparr>)"

definition request_attrs :: "Handler \<Rightarrow> request \<Rightarrow> KeyValue list" where
  "request_attrs next r =
     [(''http.method'', attribute_String (Method r)),
      (''http.route'', attribute_String (Path r)),
      (''http.status_code'', attribute_Int (captured_status next r))]"

definition emitted :: "Handler \<Rightarrow> ResponseWriter \<Rightarrow> request \<Rightarrow> world \<Rightarrow> measurement list" where
  "emitted next w r \<sigma> = drop (length (meter \<sigma>)) (meter (snd (MetricsMiddleware next w r \<sigma>)))"

section \<open>The telemetry lifecycle (internal/httpx/otel.go)\<close>

subsection \<open>The SDK\<close>

text \<open>
  The resource, the two exporters and the two providers come from the OpenTelemetry
  SDK, which is not code of this repository. The outcome of each SDK call is a
  parameter: a constructor gives an error or the value, and a provider's \<open>Shutdown\<close>
  gives \<open>nil\<close> or an error, which may depend on the \<open>Shutdown\<close> calls made before.
\<close>

datatype resource = Resource string

datatype metric_exporter = stdoutmetric_Exporter

datatype trace_exporter = stdouttrace_Exporter

record PeriodicReader =
  reader_exporter :: metric_exporter
  reader_interval :: Duration

record MeterProvider =
  mp_reader :: PeriodicReader
  mp_resource :: resource

record TracerProvider =
  tp_batcher :: trace_exporter
  tp_resource :: resource

datatype provider_call =
    TracerProvider_Shutdown_call TracerProvider
  | MeterProvider_Shutdown_call MeterProvider

record sdk =
  resource_New :: "string \<Rightarrow> error + resource"
  stdoutmetric_New :: "error + metric_exporter"
  stdouttrace_New :: "error + trace_exporter"
  tp_Shutdown_result :: "provider_call list \<Rightarrow> error option"
  mp_Shutdown_result :: "provider_call list \<Rightarrow> error option"

text \<open>
  The process-wide state of package \<open>otel\<close>: the provider registered by
  \<open>SetMeterProvider\<close> and the one registered by \<open>SetTracerProvider\<close> (\<open>None\<close> while
  none has been set), the lines logged through \<open>slog\<close>, and the \<open>Shutdown\<close> calls the
  providers have received, the newest last.
\<close>

record otel =
  meter_provider :: "MeterProvider option"
  tracer_provider :: "TracerProvider option"
  slog :: "string list"
  shutdowns :: "provider_call list"

definition Second :: Duration where
  "Second = 1000000000"

definition NewPeriodicReader :: "metric_exporter \<Rightarrow> Duration \<Rightarrow> PeriodicReader" where
  "NewPeriodicReader e d = \<lparr>reader_exporter = e, reader_interval = d\<rparr>"

definition NewMeterProvider :: "PeriodicReader \<Rightarrow> resource \<Rightarrow> MeterProvider" where
  "NewMeterProvider rd res = \<lparr>mp_reader = rd, mp_resource = res\<rparr>"

definition NewTracerProvider :: "trace_exporter \<Rightarrow> resource \<Rightarrow> TracerProvider" where
  "NewTracerProvider e res = \<lparr>tp_batcher = e, tp_resource = res\<rparr>"

definition SetMeterProvider :: "MeterProvider \<Rightarrow> otel \<Rightarrow> otel" where
  "SetMeterProvider mp g = g\<lparr>meter_provider := Some mp\<rparr>"

definition SetTracerProvider :: "TracerProvider \<Rightarrow> otel \<Rightarrow> otel" where
  "SetTracerProvider tp g = g\<lparr>tracer_provider := Some tp\<rparr>"

definition slog_Info :: "string \<Rightarrow> otel \<Rightarrow> otel" where
  "slog_Info msg g = g\<lparr>slog := slog g @ [msg]\<rparr>"

definition TracerProvider_Shutdown :: "sdk \<Rightarrow> TracerProvider \<Rightarrow> otel \<Rightarrow> error option \<times> otel" where
  "TracerProvider_Shutdown k tp g =
     (tp_Shutdown_result k (shutdowns g),
      g\<lparr>shutdowns := shutdowns g @ [TracerProvider_Shutdown_call tp]\<rparr>)"

definition MeterProvider_Shutdown :: "sdk \<Rightarrow> MeterProvider \<Rightarrow> otel \<Rightarrow> error option \<times> otel" where
  "MeterProvider_Shutdown k mp g =
     (mp_Shutdown_result k (shutdowns g),
      g\<lparr>shutdowns := shutdowns g @ [MeterProvider_Shutdown_call mp]\<rparr>)"

subsection \<open>InitTelemetry and the shutdown function it returns\<close>

type_synonym Shutdown = "otel \<Rightarrow> error option \<times> otel"

text \<open>The closure of lines 56 to 61, over the two providers it captures.\<close>

definition Shutdown_func :: "sdk \<Rightarrow> TracerProvider \<Rightarrow> MeterProvider \<Rightarrow> Shutdown" where
  "Shutdown_func k tp mp g =
     (case TracerProvider_Shutdown k tp g of
        (Some err, g) \<Rightarrow> (Some err, g)
      | (None, g) \<Rightarrow> MeterProvider_Shutdown k mp g)"

text \<open>
  Go's \<open>(Shutdown, error)\<close> is a sum: \<open>Inl err\<close> is \<open>return nil, err\<close> and \<open>Inr f\<close> is
  \<open>return f, nil\<close>. The second component is the process-wide state the call leaves.
\<close>

definition InitTelemetry :: "sdk \<Rightarrow> string \<Rightarrow> otel \<Rightarrow> (error + Shutdown) \<times> otel" where
  "InitTelemetry k serviceName g =
     (case resource_New k serviceName of
        Inl err \<Rightarrow> (Inl err, g)
      | Inr res \<Rightarrow>
         (case stdoutmetric_New k of
            Inl err \<Rightarrow> (Inl err, g)
          | Inr metricExp \<Rightarrow>
             (let reader = NewPeriodicReader metricExp (10 * Second);
                  mp = NewMeterProvider reader res;
                  g = SetMeterProvider mp g
              in case stdouttrace_New k of
                   Inl err \<Rightarrow> (Inl err, g)
                 | Inr traceExp \<Rightarrow>
                    (let tp = NewTracerProvider traceExp res;
                         g = SetTracerProvider tp g;
                         g = slog_Info ''OpenTelemetry initialized'' g
                     in (Inr (Shutdown_func k tp mp), g)))))"

text \<open>
  Concrete SDKs for the examples: every constructor succeeds but the one named, and
  the providers' \<open>Shutdown\<close> calls give the two results passed in.
\<close>

datatype sdk_step = resource_step | metric_exporter_step | trace_exporter_step

definition stdout_sdk :: "sdk_step option \<Rightarrow> error option \<Rightarrow> error option \<Rightarrow> sdk" where
  "stdout_sdk failing tp_err mp_err =
     \<lparr>resource_New = (\<lambda>serviceName.
         if failing = Some resource_step then Inl (Error ''resource'')
         else Inr (Resource serviceName)),
      stdoutmetric_New =
        (if failing = Some metric_exporter_step then Inl (Error ''stdoutmetric'')
         else Inr stdoutmetric_Exporter),
      stdouttrace_New =
        (if failing = Some trace_exporter_step then Inl (Error ''stdouttrace'')
         else Inr stdouttrace_Exporter),
      tp_Shutdown_result = (\<lambda>_. tp_err),
      mp_Shutdown_result = (\<lambda>_. mp_err)\<rparr>"

definition fresh_otel :: otel where
  "fresh_otel = \<lparr>meter_provider = None, tracer_provider = None, slog = [], shutdowns = []\<rparr>"

section \<open>Conversation titles and the concurrent join (README.md)\<close>

subsection \<open>The functions of Go's package strings that the code calls\<close>

text \<open>
  \<open>strings.TrimSpace\<close> cuts, from both ends, every rune that \<open>unicode.IsSpace\<close>
  accepts: the six ASCII ones, U+0085, U+00A0 and the other code points of the Unicode
  property White_Space. It decodes UTF-8 from the front and from the back; a byte
  sequence is taken for a space at either end exactly when it is the UTF-8 encoding
  of such a rune, and anything else (an invalid byte included) stops the cut.
\<close>

definition byte :: "char \<Rightarrow> nat" where
  "byte c = of_char c"

definition White_Space :: "nat list" where
  "White_Space =
     [0x09, 0x0A, 0x0B, 0x0C, 0x0D, 0x20, 0x85, 0xA0, 0x1680,
      0x2000, 0x2001, 0x2002, 0x2003, 0x2004, 0x2005, 0x2006, 0x2007, 0x2008, 0x2009, 0x200A,
      0x2028, 0x2029, 0x202F, 0x205F, 0x3000]"

definition EncodeRune :: "nat \<Rightarrow> nat list" where
  "EncodeRune r =
     (if r < 0x80 then [r]
      else if r < 0x800 then [0xC0 + r div 0x40, 0x80 + r mod 0x40]
      else [0xE0 + r div 0x1000, 0x80 + r div 0x40 mod 0x40, 0x80 + r mod 0x40])"

definition space_encodings :: "nat list list" where
  "space_encodings = map EncodeRune White_Space"

definition leading_space :: "string \<Rightarrow> nat option" where
  "leading_space s =
     find (\<lambda>n. n \<le> length s \<and> map byte (take n s) \<in> set space_encodings) [1, 2, 3]"

fun trim_left_space :: "string \<Rightarrow> string" where
  "trim_left_space [] = []"
| "trim_left_space (c # s) =
     (case leading_space (c # s) of
        None \<Rightarrow> c # s
      | Some n \<Rightarrow> trim_left_space (drop (n - 1) s))"

text \<open>The same from the back, on the reversed string.\<close>

definition trailing_space :: "string \<Rightarrow> nat option" where
  "trailing_space t =
     find (\<lambda>n. n \<le> length t \<and> map byte (rev (take n t)) \<in> set space_encodings) [1, 2, 3]"

fun trim_right_space_rev :: "string \<Rightarrow> string" where
  "trim_right_space_rev [] = []"
| "trim_right_space_rev (c # t) =
     (case trailing_space (c # t) of
        None \<Rightarrow> c # t
      | Some n \<Rightarrow> trim_right_space_rev (drop (n - 1) t))"

definition TrimSpace :: "string \<Rightarrow> string" where
  "TrimSpace s = rev (trim_right_space_rev (rev (trim_left_space s)))"

text \<open>
  \<open>strings.Trim\<close> with a cutset of ASCII characters compares bytes, and
  \<open>strings.ReplaceAll\<close> of one byte by another maps the bytes.
\<close>

definition Trim :: "string \<Rightarrow> string \<Rightarrow> string" where
  "Trim s cutset =
     rev (dropWhile (\<lambda>c. c \<in> set cutset) (rev (dropWhile (\<lambda>c. c \<in> set cutset) s)))"

definition ReplaceAll_byte :: "string \<Rightarrow> char \<Rightarrow> char \<Rightarrow> string" where
  "ReplaceAll_byte s old new = map (\<lambda>c. if c = old then new else c) s"

subsection \<open>Conversations\<close>

text \<open>
  Of \<open>model.Role\<close> the code names \<open>RoleUser\<close> only; \<open>RoleAssistant\<close> stands for
  every other role.
\<close>

datatype role = RoleUser | RoleAssistant

record message =
  Role :: role
  Content :: string

record conversation =
  Title :: string
  Messages :: "message list"

subsection \<open>Title (task 1)\<close>

text \<open>
  The chat completion is a call to OpenAI: its outcome is a parameter, an error or
  the contents of the choices' messages.
\<close>

datatype chat_message = SystemMessage string | UserMessage string

record chat_params =
  params_Model :: string
  params_Messages :: "chat_message list"

type_synonym chat_completions = "chat_params \<Rightarrow> error + string list"

definition ChatModelGPT4_1 :: string where
  "ChatModelGPT4_1 = ''gpt-4.1''"

definition title_rules :: string where
  "title_rules =
     ''You generate concise conversation titles.\<newline>\<newline>Rules:\<newline>'' @
     ''- Output ONLY a short noun phrase summarizing the user's first message.\<newline>'' @
     ''- Do NOT answer the question.\<newline>'' @
     ''- Do NOT include quotes.\<newline>'' @
     ''- Maximum 6 words.''"

text \<open>The characters of the cutset: space, tab, carriage return, newline, \<open>-\<close>, \<open>"\<close>, \<open>'\<close>.\<close>

definition title_cutset :: string where
  "title_cutset = [CHR '' '', CHR 0x09, CHR 0x0D, CHR 0x0A, CHR ''-'', CHR 0x22, CHR 0x27]"

text \<open>The loop of step 1: the first user message that is not blank, else \<open>""\<close>.\<close>

fun first_user_message :: "message list \<Rightarrow> string" where
  "first_user_message [] = []"
| "first_user_message (m # ms) =
     (if Role m = RoleUser \<and> TrimSpace (Content m) \<noteq> [] then Content m
      else first_user_message ms)"

text \<open>
  The snippet has two \<open>return\<close> statements and stops after the cut to 80 bytes, with
  the title in the variable \<open>title\<close>; \<open>conv.Messages[0]\<close> panics on a conversation with
  no message.
\<close>

datatype title_outcome =
    index_out_of_range
  | Return string "error option"
  | title_at_end string

definition assist_Title :: "chat_completions \<Rightarrow> conversation \<Rightarrow> title_outcome" where
  "assist_Title cli conv =
     (let firstUserMessage = first_user_message (Messages conv) in
      case (if firstUserMessage = []
            then (case Messages conv of [] \<Rightarrow> None | m # _ \<Rightarrow> Some (Content m))
            else Some firstUserMessage) of
        None \<Rightarrow> index_out_of_range
      | Some firstUserMessage \<Rightarrow>
         (let system = SystemMessage title_rules;
              user = UserMessage firstUserMessage
          in case cli \<lparr>params_Model = ChatModelGPT4_1, params_Messages = [system, user]\<rparr> of
               Inl err \<Rightarrow> Return ''New conversation'' None
             | Inr choices \<Rightarrow>
                (if length choices = 0 then Return ''New conversation'' None
                 else
                   (let title = hd choices;
                        title = ReplaceAll_byte title (CHR 0x0A) (CHR '' '');
                        title = Trim title title_cutset
                    in if title = [] then Return ''New conversation'' None
                       else title_at_end (if length title > 80 then take 80 title else title)))))"

subsection \<open>StartConversation: the two goroutines and the join (task 1, bonus)\<close>

text \<open>
  \<open>s.assist\<close> is the generation client. Its two operations are parameters: each is
  given the conversation and returns a string and an error that may be \<open>nil\<close>.
\<close>

record assist =
  assist_Title_op :: "conversation \<Rightarrow> string \<times> error option"
  assist_Reply_op :: "conversation \<Rightarrow> string \<times> error option"

text \<open>The anonymous struct that travels on \<open>replyCh\<close>.\<close>

record reply_result =
  val :: string
  err :: "error option"

datatype twirp_error = InternalErrorWith error

text \<open>
  Three threads run: the calling goroutine and the two it starts. Each has a program
  counter, which also holds the local variables that are live there. A goroutine is
  \<open>not_started\<close> until its \<open>go\<close> statement has run. \<open>return_nil\<close> is
  \<open>return nil, twirp.InternalErrorWith(...)\<close>; \<open>joined\<close> is the end of the snippet, with
  the locals \<open>title\<close> and \<open>reply\<close>.
\<close>

datatype title_pc =
    title_not_started
  | title_call
  | title_send string
  | title_done

datatype reply_pc =
    reply_not_started
  | reply_call
  | reply_send reply_result
  | reply_done

datatype main_pc =
    go_title
  | go_reply
  | recv_title
  | recv_reply string
  | check_err string reply_result
  | return_nil twirp_error
  | assign_reply string reply_result
  | assign_Title string string
  | joined string string

text \<open>
  A channel made with capacity 1 is its buffer. A send appends when the buffer holds
  fewer values than the capacity and blocks otherwise; a receive takes the oldest value
  and blocks on an empty buffer. The conversation is the one object all three threads
  hold a pointer to.
\<close>

record state =
  shared_conversation :: conversation
  titleCh :: "string list"
  replyCh :: "reply_result list"
  title_thread :: title_pc
  reply_thread :: reply_pc
  main_thread :: main_pc
  slog_errors :: "string list"

definition channel_capacity :: nat where
  "channel_capacity = 1"

definition StartConversation_begin :: "conversation \<Rightarrow> state" where
  "StartConversation_begin conv =
     \<lparr>shared_conversation = conv, titleCh = [], replyCh = [],
      title_thread = title_not_started, reply_thread = reply_not_started,
      main_thread = go_title, slog_errors = []\<rparr>"

text \<open>A step of a thread; \<open>None\<close> when the thread is blocked, not started or finished.\<close>

definition title_step :: "assist \<Rightarrow> state \<Rightarrow> state option" where
  "title_step a s =
     (case title_thread s of
        title_not_started \<Rightarrow> None
      | title_call \<Rightarrow>
         (case assist_Title_op a (shared_conversation s) of
            (title, e) \<Rightarrow>
              if e \<noteq> None \<or> TrimSpace title = [] then
                Some (s\<lparr>slog_errors := slog_errors s @ [''Failed to generate conversation title''],
                        title_thread := title_send ''Untitled conversation''\<rparr>)
              else Some (s\<lparr>title_thread := title_send title\<rparr>))
      | title_send v \<Rightarrow>
         (if length (titleCh s) < channel_capacity
          then Some (s\<lparr>titleCh := titleCh s @ [v], title_thread := title_done\<rparr>)
          else None)
      | title_done \<Rightarrow> None)"

definition reply_step :: "assist \<Rightarrow> state \<Rightarrow> state option" where
  "reply_step a s =
     (case reply_thread s of
        reply_not_started \<Rightarrow> None
      | reply_call \<Rightarrow>
         (case assist_Reply_op a (shared_conversation s) of
            (reply, e) \<Rightarrow> Some (s\<lparr>reply_thread := reply_send \<lparr>val = reply, err = e\<rparr>\<rparr>))
      | reply_send v \<Rightarrow>
         (if length (replyCh s) < channel_capacity
          then Some (s\<lparr>replyCh := replyCh s @ [v], reply_thread := reply_done\<rparr>)
          else None)
      | reply_done \<Rightarrow> None)"

definition main_step :: "state \<Rightarrow> state option" where
  "main_step s =
     (case main_thread s of
        go_title \<Rightarrow> Some (s\<lparr>title_thread := title_call, main_thread := go_reply\<rparr>)
      | go_reply \<Rightarrow> Some (s\<lparr>reply_thread := reply_call, main_thread := recv_title\<rparr>)
      | recv_title \<Rightarrow>
         (case titleCh s of
            [] \<Rightarrow> None
          | title # rest \<Rightarrow> Some (s\<lparr>titleCh := rest, main_thread := recv_reply title\<rparr>))
      | recv_reply title \<Rightarrow>
         (case replyCh s of
            [] \<Rightarrow> None
          | replyResult # rest \<Rightarrow>
              Some (s\<lparr>replyCh := rest, main_thread := check_err title replyResult\<rparr>))
      | check_err title replyResult \<Rightarrow>
         (case err replyResult of
            Some e \<Rightarrow> Some (s\<lparr>main_thread := return_nil (InternalErrorWith e)\<rparr>)
          | None \<Rightarrow> Some (s\<lparr>main_thread := assign_reply title replyResult\<rparr>))
      | return_nil e \<Rightarrow> None
      | assign_reply title replyResult \<Rightarrow>
          Some (s\<lparr>main_thread := assign_Title title (val replyResult)\<rparr>)
      | assign_Title title reply \<Rightarrow>
          Some (s\<lparr>shared_conversation := (shared_conversation s)\<lparr>Title := title\<rparr>,
                  main_thread := joined title reply\<rparr>)
      | joined title reply \<Rightarrow> None)"

datatype thread = Main | TitleGoroutine | ReplyGoroutine

fun step :: "assist \<Rightarrow> thread \<Rightarrow> state \<Rightarrow> state option" where
  "step a Main s = main_step s"
| "step a TitleGoroutine s = title_step a s"
| "step a ReplyGoroutine s = reply_step a s"

text \<open>
  A schedule is the order in which the scheduler picks the threads. Picking a thread
  that cannot step leaves the state as it is.
\<close>

definition turn :: "assist \<Rightarrow> thread \<Rightarrow> state \<Rightarrow> state" where
  "turn a t s = (case step a t s of None \<Rightarrow> s | Some s' \<Rightarrow> s')"

definition exec :: "assist \<Rightarrow> thread list \<Rightarrow> state \<Rightarrow> state" where
  "exec a sched s = fold (turn a) sched s"

definition StartConversation :: "assist \<Rightarrow> conversation \<Rightarrow> thread list \<Rightarrow> state" where
  "StartConversation a conv sched = exec a sched (StartConversation_begin conv)"

text \<open>Every thread is picked once in a round; \<open>rounds n\<close> is \<open>n\<close> rounds in a row.\<close>

definition rounds :: "nat \<Rightarrow> thread list" where
  "rounds n = concat (replicate n [Main, TitleGoroutine, ReplyGoroutine])"

text \<open>
  The places of the calling goroutine that read what a sub-operation delivered: the
  test of \<open>replyResult.err\<close> and everything after it.
\<close>

fun inspects :: "main_pc \<Rightarrow> bool" where
  "inspects go_title = False"
| "inspects go_reply = False"
| "inspects recv_title = False"
| "inspects (recv_reply _) = False"
| "inspects _ = True"

fun finished :: "main_pc \<Rightarrow> bool" where
  "finished (return_nil _) = True"
| "finished (joined _ _) = True"
| "finished _ = False"

text \<open>The local \<open>title\<close> of the calling goroutine, where it is in scope.\<close>

fun local_title :: "main_pc \<Rightarrow> string option" where
  "local_title (recv_reply title) = Some title"
| "local_title (check_err title _) = Some title"
| "local_title (assign_reply title _) = Some title"
| "local_title (assign_Title title _) = Some title"
| "local_title (joined title _) = Some title"
| "local_title _ = None"

subsection \<open>What every reachable state of the join satisfies\<close>

text \<open>
  The value the title goroutine puts on \<open>titleCh\<close> and the one the reply goroutine
  puts on \<open>replyCh\<close>, for the conversation the call was given.
\<close>

definition title_value :: "assist \<Rightarrow> conversation \<Rightarrow> string" where
  "title_value a conv =
     (case assist_Title_op a conv of
        (title, e) \<Rightarrow>
          if e \<noteq> None \<or> TrimSpace title = [] then ''Untitled conversation'' else title)"

definition reply_value :: "assist \<Rightarrow> conversation \<Rightarrow> reply_result" where
  "reply_value a conv =
     (case assist_Reply_op a conv of (reply, e) \<Rightarrow> \<lparr>val = reply, err = e\<rparr>)"

datatype phase = before_go | in_flight | received

fun title_phase :: "main_pc \<Rightarrow> phase" where
  "title_phase go_title = before_go"
| "title_phase go_reply = in_flight"
| "title_phase recv_title = in_flight"
| "title_phase _ = received"

fun reply_phase :: "main_pc \<Rightarrow> phase" where
  "reply_phase go_title = before_go"
| "reply_phase go_reply = before_go"
| "reply_phase recv_title = in_flight"
| "reply_phase (recv_reply _) = in_flight"
| "reply_phase _ = received"

fun title_inv :: "string \<Rightarrow> phase \<Rightarrow> title_pc \<Rightarrow> string list \<Rightarrow> bool" where
  "title_inv tv before_go pc ch = (pc = title_not_started \<and> ch = [])"
| "title_inv tv in_flight pc ch =
     (case pc of
        title_not_started \<Rightarrow> False
      | title_call \<Rightarrow> ch = []
      | title_send v \<Rightarrow> v = tv \<and> ch = []
      | title_done \<Rightarrow> ch = [tv])"
| "title_inv tv received pc ch = (pc = title_done \<and> ch = [])"

fun reply_inv :: "reply_result \<Rightarrow> phase \<Rightarrow> reply_pc \<Rightarrow> reply_result list \<Rightarrow> bool" where
  "reply_inv rv before_go pc ch = (pc = reply_not_started \<and> ch = [])"
| "reply_inv rv in_flight pc ch =
     (case pc of
        reply_not_started \<Rightarrow> False
      | reply_call \<Rightarrow> ch = []
      | reply_send v \<Rightarrow> v = rv \<and> ch = []
      | reply_done \<Rightarrow> ch = [rv])"
| "reply_inv rv received pc ch = (pc = reply_done \<and> ch = [])"

fun locals_inv :: "string \<Rightarrow> reply_result \<Rightarrow> main_pc \<Rightarrow> bool" where
  "locals_inv tv rv go_title = True"
| "locals_inv tv rv go_reply = True"
| "locals_inv tv rv recv_title = True"
| "locals_inv tv rv (recv_reply title) = (title = tv)"
| "locals_inv tv rv (check_err title replyResult) = (title = tv \<and> replyResult = rv)"
| "locals_inv tv rv (return_nil e) = (case err rv of None \<Rightarrow> False | Some e' \<Rightarrow> e = InternalErrorWith e')"
| "locals_inv tv rv (assign_reply title replyResult) = (title = tv \<and> replyResult = rv \<and> err rv = None)"
| "locals_inv tv rv (assign_Title title reply) = (title = tv \<and> reply = val rv \<and> err rv = None)"
| "locals_inv tv rv (joined title reply) = (title = tv \<and> reply = val rv \<and> err rv = None)"

fun conversation_at :: "conversation \<Rightarrow> main_pc \<Rightarrow> conversation" where
  "conversation_at conv (joined title reply) = conv\<lparr>Title := title\<rparr>"
| "conversation_at conv _ = conv"

definition join_inv :: "assist \<Rightarrow> conversation \<Rightarrow> state \<Rightarrow> bool" where
  "join_inv a conv s \<longleftrightarrow>
     title_inv (title_value a conv) (title_phase (main_thread s)) (title_thread s) (titleCh s) \<and>
     reply_inv (reply_value a conv) (reply_phase (main_thread s)) (reply_thread s) (replyCh s) \<and>
     locals_inv (title_value a conv) (reply_value a conv) (main_thread s) \<and>
     shared_conversation s = conversation_at conv (main_thread s)"

text \<open>The steps the three threads still have to take, at most.\<close>

fun main_todo :: "main_pc \<Rightarrow> nat" where
  "main_todo go_title = 7"
| "main_todo go_reply = 6"
| "main_todo recv_title = 5"
| "main_todo (recv_reply _) = 4"
| "main_todo (check_err _ _) = 3"
| "main_todo (return_nil _) = 0"
| "main_todo (assign_reply _ _) = 2"
| "main_todo (assign_Title _ _) = 1"
| "main_todo (joined _ _) = 0"

fun title_todo :: "title_pc \<Rightarrow> nat" where
  "title_todo title_not_started = 2"
| "title_todo title_call = 2"
| "title_todo (title_send _) = 1"
| "title_todo title_done = 0"

fun reply_todo :: "reply_pc \<Rightarrow> nat" where
  "reply_todo reply_not_started = 2"
| "reply_todo reply_call = 2"
| "reply_todo (reply_send _) = 1"
| "reply_todo reply_done = 0"

definition todo :: "state \<Rightarrow> nat" where
  "todo s = main_todo (main_thread s) + title_todo (title_thread s) + reply_todo (reply_thread s)"

section \<open>Handlers that panic, and what the call returns\<close>

subsection \<open>A handler that does not return to the middleware\<close>

text \<open>
  \<open>next.ServeHTTP(sw, r)\<close> at line 42 of metrics.go either returns or panics.
  \<open>MetricsMiddleware\<close> has no \<open>defer\<close> and no \<open>recover\<close>, so a panic passes through
  it and none of the lines 44 to 54 runs; net/http recovers the panic in the server,
  outside the middleware. A served request is the handler's run up to its return or up
  to its panic. When it returns, the middleware goes on as \<open>MetricsMiddleware\<close> above
  says; when it panics, the writer has the calls made so far, the clock has advanced,
  and the middleware's own call ends in the panic.
\<close>

datatype served = Returned handler_run | Panicked handler_run

datatype completion = completed | panicked

definition MetricsMiddleware_served ::
  "(request \<Rightarrow> served) \<Rightarrow> ResponseWriter \<Rightarrow> request \<Rightarrow> world \<Rightarrow>
     completion \<times> ResponseWriter \<times> world" where
  "MetricsMiddleware_served next w r \<sigma> =
     (case next r of
        Returned run \<Rightarrow> (completed, MetricsMiddleware (\<lambda>_. run) w r \<sigma>)
      | Panicked run \<Rightarrow>
         (let start = Now \<sigma>;
              sw = \<lparr>ResponseWriter = w, status = StatusOK\<rparr>;
              (sw, \<sigma>) = ServeHTTP (\<lambda>_. run) sw r \<sigma>
          in (panicked, ResponseWriter sw, \<sigma>)))"

definition emitted_served ::
  "(request \<Rightarrow> served) \<Rightarrow> ResponseWriter \<Rightarrow> request \<Rightarrow> world \<Rightarrow> measurement list" where
  "emitted_served next w r \<sigma> =
     drop (length (meter \<sigma>)) (meter (snd (snd (MetricsMiddleware_served next w r \<sigma>))))"

subsection \<open>The conversation that the call returns\<close>

text \<open>
  Modelled from the spec: the statements of \<open>StartConversation\<close> after the README
  snippet (after \<open>conversation.Title = title\<close>), which put the reply into the
  conversation and return it, are not in the repository's files. The spec's data model
  gives the conversation a title field and a reply field.
\<close>

record finalConversation = conversation +
  Reply :: string

text \<open>
  Modelled from the spec: the return of the call, missing from the repository's files
  as said above. Step 4 of the spec's algorithm: the orchestration fails with the
  reply's error. Step 5: "Otherwise, the conversation is updated with the produced title
  and reply, and the updated conversation is returned." \<open>None\<close> is a call that has
  not returned yet.
\<close>

definition Orchestrate ::
  "assist \<Rightarrow> conversation \<Rightarrow> thread list \<Rightarrow> (twirp_error + finalConversation) option" where
  "Orchestrate a conv sched =
     (let s = StartConversation a conv sched
      in case main_thread s of
           return_nil e \<Rightarrow> Some (Inl e)
         | joined title reply \<Rightarrow>
             Some (Inr \<lparr>Title = Title (shared_conversation s),
                        Messages = Messages (shared_conversation s), Reply = reply\<rparr>)
         | _ \<Rightarrow> None)"

section \<open>Concrete inputs for the examples\<close>

text \<open>
  A handler that answers 404 with a short body after 2.5 milliseconds, one that only
  writes a body, taking 0.4 milliseconds, and a request for each.
\<close>

definition not_found_handler :: Handler where
  "not_found_handler =
     (\<lambda>_. \<lparr>calls = [WriteHeader_call 404, Write_call ''not found''], elapsed = 2500000\<rparr>)"

definition body_only_handler :: Handler where
  "body_only_handler = (\<lambda>_. \<lparr>calls = [Write_call ''pong''], elapsed = 400000\<rparr>)"

definition get_missing :: request where
  "get_missing = \<lparr>Method = ''GET'', Path = ''/missing''\<rparr>"

definition get_ping :: request where
  "get_ping = \<lparr>Method = ''GET'', Path = ''/ping''\<rparr>"

definition quiet_world :: world where
  "quiet_world = \<lparr>clock = 0, meter = []\<rparr>"

text \<open>\<open>InitTelemetry\<close> followed by one call of the function it returned, if it returned one.\<close>

definition init_then_shutdown :: "sdk \<Rightarrow> string \<Rightarrow> otel \<Rightarrow> (error option \<times> otel) option" where
  "init_then_shutdown k serviceName g =
     (case InitTelemetry k serviceName g of
        (Inl _, _) \<Rightarrow> None
      | (Inr shutdown, g) \<Rightarrow> Some (shutdown g))"

text \<open>A client whose two operations give the same results for every conversation.\<close>

definition fixed_assist :: "string \<times> error option \<Rightarrow> string \<times> error option \<Rightarrow> assist" where
  "fixed_assist title_result reply_result =
     \<lparr>assist_Title_op = (\<lambda>_. title_result), assist_Reply_op = (\<lambda>_. reply_result)\<rparr>"

definition weather_conversation :: conversation where
  "weather_conversation =
     \<lparr>Title = [], Messages = [\<lparr>Role = RoleUser, Content = ''What is the weather in Barcelona?''\<rparr>]\<rparr>"

text \<open>
  The 404 handler as a served request that returns, and a handler that panics after
  0.3 milliseconds without a call on the writer.
\<close>

definition not_found_served :: "request \<Rightarrow> served" where
  "not_found_served = (\<lambda>r. Returned (not_found_handler r))"

definition panicking_handler :: "request \<Rightarrow> served" where
  "panicking_handler = (\<lambda>_. Panicked \<lparr>calls = [], elapsed = 300000\<rparr>)"

section \<open>Properties of the metrics middleware\<close>

lemma ResponseWriter_perform: "ResponseWriter (perform c sw) = ResponseWriter sw @ [c]"
  by (cases c) (simp_all add: WriteHeader_def Write_def)

lemma fold_perform_rw:
  "ResponseWriter (fold perform cs sw) = ResponseWriter sw @ cs"
  by (induction cs arbitrary: sw) (simp_all add: ResponseWriter_perform)

lemma status_perform:
  "status (perform c sw) = (case c of WriteHeader_call code \<Rightarrow> code | Write_call _ \<Rightarrow> status sw)"
  by (cases c) (simp_all add: WriteHeader_def Write_def)

lemma status_fold_perform:
  "status (fold perform cs sw) = status (fold perform cs \<lparr>ResponseWriter = w, status = status sw\<rparr>)"
proof (induction cs arbitrary: sw w)
  case Nil
  then show ?case by simp
next
  case (Cons c cs)
  have "status (fold perform cs (perform c sw)) =
        status (fold perform cs \<lparr>ResponseWriter = [], status = status (perform c sw)\<rparr>)"
    by (rule Cons.IH)
  also have "\<dots> = status (fold perform cs \<lparr>ResponseWriter = [],
      status = status (perform c \<lparr>ResponseWriter = w, status = status sw\<rparr>)\<rparr>)"
    by (simp add: status_perform split: writer_call.splits)
  also have "\<dots> = status (fold perform cs (perform c \<lparr>ResponseWriter = w, status = status sw\<rparr>))"
    by (rule Cons.IH [symmetric])
  finally show ?case by simp
qed

lemma status_ServeHTTP:
  "status (fst (ServeHTTP next \<lparr>ResponseWriter = w, status = StatusOK\<rparr> r \<sigma>)) =
     captured_status next r"
  unfolding ServeHTTP_def captured_status_def
  using status_fold_perform [of "calls (next r)" "\<lparr>ResponseWriter = w, status = StatusOK\<rparr>" "[]"]
  by simp

lemma MetricsMiddleware_meter:
  "meter (snd (MetricsMiddleware next w r \<sigma>)) =
     meter \<sigma> @
     [Counter_Add reqCounter 1 (request_attrs next r),
      Histogram_Record latencyHistogram (float64 (Milliseconds (int (elapsed (next r)))))
        (request_attrs next r)] @
     (if captured_status next r \<ge> 400 then [Counter_Add errCounter 1 (request_attrs next r)] else [])"
proof -
  obtain sw \<sigma>1 where run: "ServeHTTP next \<lparr>ResponseWriter = w, status = StatusOK\<rparr> r \<sigma> = (sw, \<sigma>1)"
    by (cases "ServeHTTP next \<lparr>ResponseWriter = w, status = StatusOK\<rparr> r \<sigma>")
  have st: "status sw = captured_status next r"
    using status_ServeHTTP [of "next" w r \<sigma>] run by simp
  have \<sigma>1: "\<sigma>1 = \<sigma>\<lparr>clock := clock \<sigma> + int (elapsed (next r))\<rparr>"
    using run by (simp add: ServeHTTP_def)
  show ?thesis
    unfolding MetricsMiddleware_def Let_def run
    by (simp add: st \<sigma>1 Add_def Record_def Since_def Now_def request_attrs_def)
qed

lemma MetricsMiddleware_writer:
  "fst (MetricsMiddleware next w r \<sigma>) = w @ calls (next r)"
  unfolding MetricsMiddleware_def Let_def
  by (simp add: ServeHTTP_def fold_perform_rw split: prod.splits)

lemma Milliseconds_nonneg: "0 \<le> d \<Longrightarrow> Milliseconds d = d div 1000000"
  by (simp add: Milliseconds_def)

lemma Milliseconds_exact:
  assumes "- (2 ^ 63) \<le> d" and "d < 2 ^ 63"
  shows "\<bar>Milliseconds d\<bar> < 2 ^ 53"
proof (cases "0 \<le> d")
  case True
  then have "Milliseconds d = d div 1000000" by (simp add: Milliseconds_def)
  moreover have "d div 1000000 \<le> d" using True by (simp add: div_le_dividend zdiv_mono2 pos_imp_zdiv_nonneg_iff)
  moreover have "0 \<le> d div 1000000" using True by (simp add: pos_imp_zdiv_nonneg_iff)
  moreover have "d div 1000000 < 2 ^ 53" using assms(2) by simp
  ultimately show ?thesis by simp
next
  case False
  then have m: "Milliseconds d = - ((- d) div 1000000)" by (simp add: Milliseconds_def)
  have "0 \<le> (- d) div 1000000" using False by (simp add: pos_imp_zdiv_nonneg_iff)
  moreover have "(- d) div 1000000 < 2 ^ 53" using assms(1) by simp
  ultimately show ?thesis unfolding m by simp
qed

lemma Milliseconds_examples:
  "Milliseconds 2500000 = 2" "Milliseconds 999999 = 0" "Milliseconds (- 1500000) = - 1"
  by (simp_all add: Milliseconds_def)

lemma emitted_eq:
  "emitted next w r \<sigma> =
     [Counter_Add reqCounter 1 (request_attrs next r),
      Histogram_Record latencyHistogram (float64 (Milliseconds (int (elapsed (next r)))))
        (request_attrs next r)] @
     (if captured_status next r \<ge> 400 then [Counter_Add errCounter 1 (request_attrs next r)] else [])"
  unfolding emitted_def MetricsMiddleware_meter by simp

lemma instruments_distinct:
  "reqCounter \<noteq> errCounter" "reqCounter \<noteq> latencyHistogram" "errCounter \<noteq> latencyHistogram"
  by (simp_all add: reqCounter_def errCounter_def latencyHistogram_def)

lemma captured_status_no_WriteHeader:
  assumes "\<forall>c \<in> set cs. \<forall>code. c \<noteq> WriteHeader_call code"
  shows "status (fold perform cs sw) = status sw"
  using assms
proof (induction cs arbitrary: sw)
  case Nil
  then show ?case by simp
next
  case (Cons c cs)
  then obtain b where "c = Write_call b" by (cases c) auto
  with Cons show ?case by (simp add: Write_def)
qed

lemma MetricsMiddleware_records_once:
  "meter (snd (MetricsMiddleware next w r \<sigma>)) = meter \<sigma> @ emitted next w r \<sigma> \<and>
   recorded_on reqCounter (emitted next w r \<sigma>) =
     [Counter_Add reqCounter 1 (request_attrs next r)] \<and>
   recorded_on latencyHistogram (emitted next w r \<sigma>) =
     [Histogram_Record latencyHistogram (float64 (Milliseconds (int (elapsed (next r)))))
        (request_attrs next r)] \<and>
   0 \<le> float64 (Milliseconds (int (elapsed (next r)))) \<and>
   recorded_on errCounter (emitted next w r \<sigma>) =
     (if 400 \<le> captured_status next r
      then [Counter_Add errCounter 1 (request_attrs next r)] else []) \<and>
   (\<forall>m \<in> set (emitted next w r \<sigma>). attributes_of m = request_attrs next r) \<and>
   request_attrs next r =
     [(''http.method'', attribute_String (Method r)),
      (''http.route'', attribute_String (Path r)),
      (''http.status_code'', attribute_Int (captured_status next r))] \<and>
   captured_status next r =
     status (fst (ServeHTTP next \<lparr>ResponseWriter = w, status = StatusOK\<rparr> r \<sigma>))"
proof -
  have 1: "meter (snd (MetricsMiddleware next w r \<sigma>)) = meter \<sigma> @ emitted next w r \<sigma>"
    unfolding emitted_eq MetricsMiddleware_meter by simp
  have 2: "recorded_on reqCounter (emitted next w r \<sigma>) =
     [Counter_Add reqCounter 1 (request_attrs next r)]"
    unfolding emitted_eq recorded_on_def using instruments_distinct by simp
  have 3: "recorded_on latencyHistogram (emitted next w r \<sigma>) =
     [Histogram_Record latencyHistogram (float64 (Milliseconds (int (elapsed (next r)))))
        (request_attrs next r)]"
    unfolding emitted_eq recorded_on_def using instruments_distinct by auto
  have 4: "0 \<le> float64 (Milliseconds (int (elapsed (next r))))"
    by (simp add: float64_def Milliseconds_def pos_imp_zdiv_nonneg_iff)
  have 5: "recorded_on errCounter (emitted next w r \<sigma>) =
     (if 400 \<le> captured_status next r
      then [Counter_Add errCounter 1 (request_attrs next r)] else [])"
    unfolding emitted_eq recorded_on_def using instruments_distinct by auto
  have 6: "\<forall>m \<in> set (emitted next w r \<sigma>). attributes_of m = request_attrs next r"
    unfolding emitted_eq by simp
  have 7: "request_attrs next r =
     [(''http.method'', attribute_String (Method r)),
      (''http.route'', attribute_String (Path r)),
      (''http.status_code'', attribute_Int (captured_status next r))]"
    by (simp add: request_attrs_def)
  have 8: "captured_status next r =
     status (fst (ServeHTTP next \<lparr>ResponseWriter = w, status = StatusOK\<rparr> r \<sigma>))"
    by (rule status_ServeHTTP [symmetric])
  from 1 2 3 4 5 6 7 8 show ?thesis by blast
qed

lemma not_found_status: "captured_status not_found_handler get_missing = 404"
  by (simp add: captured_status_def not_found_handler_def WriteHeader_def Write_def)

lemma not_found_elapsed: "Milliseconds (int (elapsed (not_found_handler get_missing))) = 2"
  by (simp add: not_found_handler_def Milliseconds_def)

lemma not_found_attrs:
  "request_attrs not_found_handler get_missing =
     [(''http.method'', attribute_String ''GET''), (''http.route'', attribute_String ''/missing''),
      (''http.status_code'', attribute_Int 404)]"
  by (simp add: request_attrs_def not_found_status) (simp add: get_missing_def)

lemma emitted_served_Returned:
  "next r = Returned run \<Longrightarrow> emitted_served next w r \<sigma> = emitted (\<lambda>_. run) w r \<sigma>"
  by (simp add: emitted_served_def emitted_def MetricsMiddleware_served_def)

lemma MetricsMiddleware_served_Panicked:
  "next r = Panicked run \<Longrightarrow>
     MetricsMiddleware_served next w r \<sigma> =
       (panicked, w @ calls run, \<sigma>\<lparr>clock := clock \<sigma> + int (elapsed run)\<rparr>)"
  by (simp add: MetricsMiddleware_served_def ServeHTTP_def fold_perform_rw)

text \<open>
  Claim C4, as the code has it. A request whose handler returns appends to the meter,
  in this order, one \<open>Add\<close> of 1 on the request counter, one \<open>Record\<close> on the latency
  histogram, whose value is not negative, and, exactly when the captured status is at
  least 400, one \<open>Add\<close> of 1 on the error counter; nothing else, and nothing on the
  error counter when the status is below 400. All of them carry the same three
  attributes: the method, the path and the captured status, which is the status the
  wrapping writer holds when the handler has returned. A request whose handler panics
  appends nothing.
\<close>

theorem MetricsMiddleware_records_once_if_handler_returns:
  "(next r = Returned run \<longrightarrow>
      fst (MetricsMiddleware_served next w r \<sigma>) = completed \<and>
      meter (snd (snd (MetricsMiddleware_served next w r \<sigma>))) =
        meter \<sigma> @ emitted_served next w r \<sigma> \<and>
      recorded_on reqCounter (emitted_served next w r \<sigma>) =
        [Counter_Add reqCounter 1 (request_attrs (\<lambda>_. run) r)] \<and>
      recorded_on latencyHistogram (emitted_served next w r \<sigma>) =
        [Histogram_Record latencyHistogram (float64 (Milliseconds (int (elapsed run))))
           (request_attrs (\<lambda>_. run) r)] \<and>
      0 \<le> float64 (Milliseconds (int (elapsed run))) \<and>
      recorded_on errCounter (emitted_served next w r \<sigma>) =
        (if 400 \<le> captured_status (\<lambda>_. run) r
         then [Counter_Add errCounter 1 (request_attrs (\<lambda>_. run) r)] else []) \<and>
      (\<forall>m \<in> set (emitted_served next w r \<sigma>). attributes_of m = request_attrs (\<lambda>_. run) r) \<and>
      request_attrs (\<lambda>_. run) r =
        [(''http.method'', attribute_String (Method r)),
         (''http.route'', attribute_String (Path r)),
         (''http.status_code'', attribute_Int (captured_status (\<lambda>_. run) r))] \<and>
      captured_status (\<lambda>_. run) r =
        status (fold perform (calls run) \<lparr>ResponseWriter = w, status = StatusOK\<rparr>)) \<and>
   (next r = Panicked run \<longrightarrow>
      fst (MetricsMiddleware_served next w r \<sigma>) = panicked \<and>
      meter (snd (snd (MetricsMiddleware_served next w r \<sigma>))) = meter \<sigma> \<and>
      emitted_served next w r \<sigma> = [])"
proof -
  have ret: "fst (MetricsMiddleware_served next w r \<sigma>) = completed \<and>
      meter (snd (snd (MetricsMiddleware_served next w r \<sigma>))) =
        meter \<sigma> @ emitted_served next w r \<sigma> \<and>
      recorded_on reqCounter (emitted_served next w r \<sigma>) =
        [Counter_Add reqCounter 1 (request_attrs (\<lambda>_. run) r)] \<and>
      recorded_on latencyHistogram (emitted_served next w r \<sigma>) =
        [Histogram_Record latencyHistogram (float64 (Milliseconds (int (elapsed run))))
           (request_attrs (\<lambda>_. run) r)] \<and>
      0 \<le> float64 (Milliseconds (int (elapsed run))) \<and>
      recorded_on errCounter (emitted_served next w r \<sigma>) =
        (if 400 \<le> captured_status (\<lambda>_. run) r
         then [Counter_Add errCounter 1 (request_attrs (\<lambda>_. run) r)] else []) \<and>
      (\<forall>m \<in> set (emitted_served next w r \<sigma>). attributes_of m = request_attrs (\<lambda>_. run) r) \<and>
      request_attrs (\<lambda>_. run) r =
        [(''http.method'', attribute_String (Method r)),
         (''http.route'', attribute_String (Path r)),
         (''http.status_code'', attribute_Int (captured_status (\<lambda>_. run) r))] \<and>
      captured_status (\<lambda>_. run) r =
        status (fold perform (calls run) \<lparr>ResponseWriter = w, status = StatusOK\<rparr>)"
    if h: "next r = Returned run"
  proof -
    have 1: "fst (MetricsMiddleware_served next w r \<sigma>) = completed"
      and 2: "snd (MetricsMiddleware_served next w r \<sigma>) = MetricsMiddleware (\<lambda>_. run) w r \<sigma>"
      using h by (simp_all add: MetricsMiddleware_served_def)
    have 3: "status (fst (ServeHTTP (\<lambda>_. run) \<lparr>ResponseWriter = w, status = StatusOK\<rparr> r \<sigma>)) =
        status (fold perform (calls run) \<lparr>ResponseWriter = w, status = StatusOK\<rparr>)"
      by (simp add: ServeHTTP_def)
    have e: "emitted_served next w r \<sigma> = emitted (\<lambda>_. run) w r \<sigma>"
      using h by (rule emitted_served_Returned)
    from MetricsMiddleware_records_once [of "\<lambda>_. run" w r \<sigma>] show ?thesis
      unfolding e 1 2 3 by simp
  qed
  have pan: "fst (MetricsMiddleware_served next w r \<sigma>) = panicked \<and>
      meter (snd (snd (MetricsMiddleware_served next w r \<sigma>))) = meter \<sigma> \<and>
      emitted_served next w r \<sigma> = []"
    if "next r = Panicked run"
  proof -
    have "MetricsMiddleware_served next w r \<sigma> =
        (panicked, w @ calls run, \<sigma>\<lparr>clock := clock \<sigma> + int (elapsed run)\<rparr>)"
      using that by (rule MetricsMiddleware_served_Panicked)
    then show ?thesis by (simp add: emitted_served_def)
  qed
  from ret pan show ?thesis by blast
qed

theorem MetricsMiddleware_records_once_if_handler_returns_witness:
  "not_found_served get_missing = Returned (not_found_handler get_missing) \<and>
   fst (MetricsMiddleware_served not_found_served [] get_missing quiet_world) = completed \<and>
   recorded_on reqCounter (emitted_served not_found_served [] get_missing quiet_world) =
     [Counter_Add reqCounter 1
        [(''http.method'', attribute_String ''GET''), (''http.route'', attribute_String ''/missing''),
         (''http.status_code'', attribute_Int 404)]] \<and>
   recorded_on latencyHistogram (emitted_served not_found_served [] get_missing quiet_world) =
     [Histogram_Record latencyHistogram 2
        [(''http.method'', attribute_String ''GET''), (''http.route'', attribute_String ''/missing''),
         (''http.status_code'', attribute_Int 404)]] \<and>
   recorded_on errCounter (emitted_served not_found_served [] get_missing quiet_world) =
     [Counter_Add errCounter 1
        [(''http.method'', attribute_String ''GET''), (''http.route'', attribute_String ''/missing''),
         (''http.status_code'', attribute_Int 404)]] \<and>
   panicking_handler get_ping = Panicked \<lparr>calls = [], elapsed = 300000\<rparr> \<and>
   emitted_served panicking_handler [] get_ping quiet_world = []"
proof -
  have h: "not_found_served get_missing = Returned (not_found_handler get_missing)"
    by (simp add: not_found_served_def)
  have p: "panicking_handler get_ping = Panicked \<lparr>calls = [], elapsed = 300000\<rparr>"
    by (simp add: panicking_handler_def)
  have a: "request_attrs (\<lambda>_. not_found_handler get_missing) get_missing =
     [(''http.method'', attribute_String ''GET''), (''http.route'', attribute_String ''/missing''),
      (''http.status_code'', attribute_Int 404)]"
    using not_found_attrs by (simp add: request_attrs_def captured_status_def)
  have s: "captured_status (\<lambda>_. not_found_handler get_missing) get_missing = 404"
    using not_found_status by (simp add: captured_status_def)
  note c = MetricsMiddleware_records_once_if_handler_returns
    [of not_found_served get_missing "not_found_handler get_missing" "[]" quiet_world]
  from c h have 0: "fst (MetricsMiddleware_served not_found_served [] get_missing quiet_world) = completed"
    and 1: "recorded_on reqCounter (emitted_served not_found_served [] get_missing quiet_world) =
      [Counter_Add reqCounter 1 (request_attrs (\<lambda>_. not_found_handler get_missing) get_missing)]"
    and 2: "recorded_on latencyHistogram (emitted_served not_found_served [] get_missing quiet_world) =
      [Histogram_Record latencyHistogram
         (float64 (Milliseconds (int (elapsed (not_found_handler get_missing)))))
         (request_attrs (\<lambda>_. not_found_handler get_missing) get_missing)]"
    and 3: "recorded_on errCounter (emitted_served not_found_served [] get_missing quiet_world) =
      (if 400 \<le> captured_status (\<lambda>_. not_found_handler get_missing) get_missing
       then [Counter_Add errCounter 1 (request_attrs (\<lambda>_. not_found_handler get_missing) get_missing)]
       else [])"
    by blast+
  from MetricsMiddleware_records_once_if_handler_returns
    [of panicking_handler get_ping "\<lparr>calls = [], elapsed = 300000\<rparr>" "[]" quiet_world] p
  have 4: "emitted_served panicking_handler [] get_ping quiet_world = []"
    by blast
  show ?thesis
    unfolding 0 1 2 3 4 a s not_found_elapsed
    using h p by (simp add: float64_def)
qed

text \<open>
  Against C4 as the spec words it, for every request: the middleware's call for a
  handler that panics ends in the panic with the meter as it was, so neither the request
  counter nor the latency histogram has a measurement for that request.
\<close>

theorem panicking_handler_is_not_counted_counterexample:
  "fst (MetricsMiddleware_served panicking_handler [] get_ping quiet_world) = panicked \<and>
   meter (snd (snd (MetricsMiddleware_served panicking_handler [] get_ping quiet_world))) = [] \<and>
   recorded_on reqCounter (emitted_served panicking_handler [] get_ping quiet_world) = [] \<and>
   recorded_on latencyHistogram (emitted_served panicking_handler [] get_ping quiet_world) = []"
  by (simp add: emitted_served_def MetricsMiddleware_served_def panicking_handler_def
      ServeHTTP_def quiet_world_def recorded_on_def)

text \<open>
  Claim C6. When the handler returns without a call of \<open>WriteHeader\<close> (it may have
  written a body), the captured status is 200: that is the status in the attributes of
  the request's measurements, and the error counter is not touched.
\<close>

theorem unset_status_is_200:
  assumes "\<forall>c \<in> set (calls (next r)). \<forall>code. c \<noteq> WriteHeader_call code"
  shows "status (fst (ServeHTTP next \<lparr>ResponseWriter = w, status = StatusOK\<rparr> r \<sigma>)) = 200 \<and>
         captured_status next r = 200 \<and>
         request_attrs next r =
           [(''http.method'', attribute_String (Method r)),
            (''http.route'', attribute_String (Path r)),
            (''http.status_code'', attribute_Int 200)] \<and>
         emitted next w r \<sigma> =
           [Counter_Add reqCounter 1 (request_attrs next r),
            Histogram_Record latencyHistogram (float64 (Milliseconds (int (elapsed (next r)))))
              (request_attrs next r)] \<and>
         recorded_on errCounter (emitted next w r \<sigma>) = []"
proof -
  have c: "captured_status next r = 200"
    unfolding captured_status_def using captured_status_no_WriteHeader [OF assms]
    by (simp add: StatusOK_def)
  then have s: "status (fst (ServeHTTP next \<lparr>ResponseWriter = w, status = StatusOK\<rparr> r \<sigma>)) = 200"
    by (simp add: status_ServeHTTP)
  have e: "emitted next w r \<sigma> =
           [Counter_Add reqCounter 1 (request_attrs next r),
            Histogram_Record latencyHistogram (float64 (Milliseconds (int (elapsed (next r)))))
              (request_attrs next r)]"
    unfolding emitted_eq using c by simp
  have "recorded_on errCounter (emitted next w r \<sigma>) = []"
    unfolding e recorded_on_def using instruments_distinct by auto
  with c s e show ?thesis by (simp add: request_attrs_def)
qed

theorem unset_status_is_200_witness:
  "calls (body_only_handler get_ping) = [Write_call ''pong''] \<and>
   captured_status body_only_handler get_ping = 200 \<and>
   request_attrs body_only_handler get_ping =
     [(''http.method'', attribute_String ''GET''), (''http.route'', attribute_String ''/ping''),
      (''http.status_code'', attribute_Int 200)] \<and>
   recorded_on errCounter (emitted body_only_handler [] get_ping quiet_world) = []"
proof -
  have c: "calls (body_only_handler get_ping) = [Write_call ''pong'']"
    by (simp add: body_only_handler_def)
  then have h: "\<forall>c \<in> set (calls (body_only_handler get_ping)). \<forall>code. c \<noteq> WriteHeader_call code"
    by simp
  from unset_status_is_200 [of body_only_handler get_ping "[]" quiet_world] h
  have "captured_status body_only_handler get_ping = 200"
    and "request_attrs body_only_handler get_ping =
     [(''http.method'', attribute_String (Method get_ping)),
      (''http.route'', attribute_String (Path get_ping)),
      (''http.status_code'', attribute_Int 200)]"
    and "recorded_on errCounter (emitted body_only_handler [] get_ping quiet_world) = []"
    by blast+
  with c show ?thesis by (simp add: get_ping_def)
qed

text \<open>
  Claim C10. The value recorded on the latency histogram is the time between
  \<open>time.Now()\<close> and \<open>time.Since\<close>, cut to whole milliseconds: the natural number
  \<open>elapsed div 1000000\<close> as a float. A request that takes less than a millisecond
  records 0.
\<close>

theorem latency_is_whole_milliseconds:
  "Since (Now \<sigma>) (snd (ServeHTTP next \<lparr>ResponseWriter = w, status = StatusOK\<rparr> r \<sigma>)) =
     int (elapsed (next r)) \<and>
   recorded_on latencyHistogram (emitted next w r \<sigma>) =
     [Histogram_Record latencyHistogram (real (elapsed (next r) div 1000000))
        (request_attrs next r)] \<and>
   (elapsed (next r) < 1000000 \<longrightarrow>
      recorded_on latencyHistogram (emitted next w r \<sigma>) =
        [Histogram_Record latencyHistogram 0 (request_attrs next r)])"
proof -
  have "int (elapsed (next r)) div 1000000 = int (elapsed (next r) div 1000000)"
    by (simp add: zdiv_int)
  then have v: "float64 (Milliseconds (int (elapsed (next r)))) = real (elapsed (next r) div 1000000)"
    by (simp add: float64_def Milliseconds_def)
  have 1: "Since (Now \<sigma>) (snd (ServeHTTP next \<lparr>ResponseWriter = w, status = StatusOK\<rparr> r \<sigma>)) =
     int (elapsed (next r))"
    by (simp add: Since_def Now_def ServeHTTP_def)
  have 2: "recorded_on latencyHistogram (emitted next w r \<sigma>) =
     [Histogram_Record latencyHistogram (real (elapsed (next r) div 1000000))
        (request_attrs next r)]"
    unfolding emitted_eq recorded_on_def v using instruments_distinct by auto
  from 1 2 show ?thesis by simp
qed

theorem latency_is_whole_milliseconds_witness:
  "elapsed (body_only_handler get_ping) < 1000000 \<and>
   recorded_on latencyHistogram (emitted body_only_handler [] get_ping quiet_world) =
     [Histogram_Record latencyHistogram 0 (request_attrs body_only_handler get_ping)] \<and>
   recorded_on latencyHistogram (emitted not_found_handler [] get_missing quiet_world) =
     [Histogram_Record latencyHistogram 2 (request_attrs not_found_handler get_missing)]"
proof -
  have h: "elapsed (body_only_handler get_ping) < 1000000"
    by (simp add: body_only_handler_def)
  have "elapsed (not_found_handler get_missing) div 1000000 = 2"
    by (simp add: not_found_handler_def)
  with latency_is_whole_milliseconds [of quiet_world body_only_handler "[]" get_ping]
    latency_is_whole_milliseconds [of quiet_world not_found_handler "[]" get_missing] h
  show ?thesis by simp
qed

section \<open>Properties of the telemetry lifecycle\<close>

lemma Shutdown_func_eq:
  "Shutdown_func k tp mp g =
     (case tp_Shutdown_result k (shutdowns g) of
        Some e \<Rightarrow> (Some e, g\<lparr>shutdowns := shutdowns g @ [TracerProvider_Shutdown_call tp]\<rparr>)
      | None \<Rightarrow>
          (mp_Shutdown_result k (shutdowns g @ [TracerProvider_Shutdown_call tp]),
           g\<lparr>shutdowns := shutdowns g @
              [TracerProvider_Shutdown_call tp, MeterProvider_Shutdown_call mp]\<rparr>))"
  by (simp add: Shutdown_func_def TracerProvider_Shutdown_def MeterProvider_Shutdown_def
      split: option.splits)

lemma InitTelemetry_Inr:
  assumes "InitTelemetry k serviceName g0 = (Inr shutdown, g1)"
  shows "\<exists>res metricExp traceExp.
           resource_New k serviceName = Inr res \<and>
           stdoutmetric_New k = Inr metricExp \<and>
           stdouttrace_New k = Inr traceExp \<and>
           shutdown = Shutdown_func k (NewTracerProvider traceExp res)
             (NewMeterProvider (NewPeriodicReader metricExp (10 * Second)) res) \<and>
           g1 = g0\<lparr>meter_provider :=
                     Some (NewMeterProvider (NewPeriodicReader metricExp (10 * Second)) res),
                   tracer_provider := Some (NewTracerProvider traceExp res),
                   slog := slog g0 @ [''OpenTelemetry initialized'']\<rparr>"
  using assms
  by (auto simp: InitTelemetry_def Let_def SetMeterProvider_def SetTracerProvider_def
      slog_Info_def split: sum.splits)

text \<open>
  Claim C1, as the code has it. Every call of the function that \<open>InitTelemetry\<close>
  returned shuts the trace provider down first. If that fails, the call returns that
  error and the metric provider's \<open>Shutdown\<close> is not called; if it succeeds, the metric
  provider is shut down next and the call returns what that gave.
\<close>

theorem Shutdown_stops_at_first_error:
  assumes "InitTelemetry k serviceName g0 = (Inr shutdown, g1)"
  shows "\<exists>tp mp.
           tracer_provider g1 = Some tp \<and> meter_provider g1 = Some mp \<and>
           (case tp_Shutdown_result k (shutdowns g) of
              Some e \<Rightarrow>
                shutdown g =
                  (Some e, g\<lparr>shutdowns := shutdowns g @ [TracerProvider_Shutdown_call tp]\<rparr>)
            | None \<Rightarrow>
                shutdown g =
                  (mp_Shutdown_result k (shutdowns g @ [TracerProvider_Shutdown_call tp]),
                   g\<lparr>shutdowns := shutdowns g @
                      [TracerProvider_Shutdown_call tp, MeterProvider_Shutdown_call mp]\<rparr>))"
proof -
  from InitTelemetry_Inr [OF assms] obtain res metricExp traceExp where
    sd: "shutdown = Shutdown_func k (NewTracerProvider traceExp res)
           (NewMeterProvider (NewPeriodicReader metricExp (10 * Second)) res)"
    and g1: "g1 = g0\<lparr>meter_provider :=
                     Some (NewMeterProvider (NewPeriodicReader metricExp (10 * Second)) res),
                   tracer_provider := Some (NewTracerProvider traceExp res),
                   slog := slog g0 @ [''OpenTelemetry initialized'']\<rparr>"
    by blast
  show ?thesis
    unfolding sd g1 Shutdown_func_eq by (simp split: option.splits)
qed

lemma InitTelemetry_stdout:
  "InitTelemetry (stdout_sdk None tp_err mp_err) ''acai-server'' fresh_otel =
     (Inr (Shutdown_func (stdout_sdk None tp_err mp_err)
             \<lparr>tp_batcher = stdouttrace_Exporter, tp_resource = Resource ''acai-server''\<rparr>
             \<lparr>mp_reader = \<lparr>reader_exporter = stdoutmetric_Exporter, reader_interval = 10000000000\<rparr>,
                mp_resource = Resource ''acai-server''\<rparr>),
      \<lparr>meter_provider =
         Some \<lparr>mp_reader = \<lparr>reader_exporter = stdoutmetric_Exporter, reader_interval = 10000000000\<rparr>,
               mp_resource = Resource ''acai-server''\<rparr>,
       tracer_provider =
         Some \<lparr>tp_batcher = stdouttrace_Exporter, tp_resource = Resource ''acai-server''\<rparr>,
       slog = [''OpenTelemetry initialized''], shutdowns = []\<rparr>)"
  by (simp add: InitTelemetry_def stdout_sdk_def fresh_otel_def Let_def SetMeterProvider_def
      SetTracerProvider_def slog_Info_def NewPeriodicReader_def NewMeterProvider_def
      NewTracerProvider_def Second_def)

theorem Shutdown_stops_at_first_error_witness:
  "InitTelemetry (stdout_sdk None None (Some (Error ''flush metrics''))) ''acai-server'' fresh_otel =
     (Inr (Shutdown_func (stdout_sdk None None (Some (Error ''flush metrics'')))
             \<lparr>tp_batcher = stdouttrace_Exporter, tp_resource = Resource ''acai-server''\<rparr>
             \<lparr>mp_reader = \<lparr>reader_exporter = stdoutmetric_Exporter, reader_interval = 10000000000\<rparr>,
                mp_resource = Resource ''acai-server''\<rparr>),
      \<lparr>meter_provider =
         Some \<lparr>mp_reader = \<lparr>reader_exporter = stdoutmetric_Exporter, reader_interval = 10000000000\<rparr>,
               mp_resource = Resource ''acai-server''\<rparr>,
       tracer_provider =
         Some \<lparr>tp_batcher = stdouttrace_Exporter, tp_resource = Resource ''acai-server''\<rparr>,
       slog = [''OpenTelemetry initialized''], shutdowns = []\<rparr>) \<and>
   Shutdown_func (stdout_sdk None None (Some (Error ''flush metrics'')))
       \<lparr>tp_batcher = stdouttrace_Exporter, tp_resource = Resource ''acai-server''\<rparr>
       \<lparr>mp_reader = \<lparr>reader_exporter = stdoutmetric_Exporter, reader_interval = 10000000000\<rparr>,
          mp_resource = Resource ''acai-server''\<rparr>
       fresh_otel =
     (Some (Error ''flush metrics''),
      fresh_otel\<lparr>shutdowns :=
        [TracerProvider_Shutdown_call
           \<lparr>tp_batcher = stdouttrace_Exporter, tp_resource = Resource ''acai-server''\<rparr>,
         MeterProvider_Shutdown_call
           \<lparr>mp_reader = \<lparr>reader_exporter = stdoutmetric_Exporter, reader_interval = 10000000000\<rparr>,
              mp_resource = Resource ''acai-server''\<rparr>]\<rparr>)"
proof -
  note h = InitTelemetry_stdout [of None "Some (Error ''flush metrics'')"]
  from Shutdown_stops_at_first_error [OF h, of fresh_otel]
  have "Shutdown_func (stdout_sdk None None (Some (Error ''flush metrics'')))
       \<lparr>tp_batcher = stdouttrace_Exporter, tp_resource = Resource ''acai-server''\<rparr>
       \<lparr>mp_reader = \<lparr>reader_exporter = stdoutmetric_Exporter, reader_interval = 10000000000\<rparr>,
          mp_resource = Resource ''acai-server''\<rparr>
       fresh_otel =
     (Some (Error ''flush metrics''),
      fresh_otel\<lparr>shutdowns :=
        [TracerProvider_Shutdown_call
           \<lparr>tp_batcher = stdouttrace_Exporter, tp_resource = Resource ''acai-server''\<rparr>,
         MeterProvider_Shutdown_call
           \<lparr>mp_reader = \<lparr>reader_exporter = stdoutmetric_Exporter, reader_interval = 10000000000\<rparr>,
              mp_resource = Resource ''acai-server''\<rparr>]\<rparr>)"
    by (simp add: stdout_sdk_def fresh_otel_def)
  with h show ?thesis by blast
qed

text \<open>
  Against C1 as the spec words it, which asks for both shutdowns to be attempted when
  the first fails: with an SDK whose trace provider fails to shut down, the call returns
  that error and the only \<open>Shutdown\<close> call made is the trace provider's.
\<close>

theorem Shutdown_skips_metric_provider_counterexample:
  "init_then_shutdown (stdout_sdk None (Some (Error ''flush traces'')) None) ''acai-server''
     fresh_otel =
     Some (Some (Error ''flush traces''),
       \<lparr>meter_provider =
          Some \<lparr>mp_reader = \<lparr>reader_exporter = stdoutmetric_Exporter, reader_interval = 10000000000\<rparr>,
                mp_resource = Resource ''acai-server''\<rparr>,
        tracer_provider =
          Some \<lparr>tp_batcher = stdouttrace_Exporter, tp_resource = Resource ''acai-server''\<rparr>,
        slog = [''OpenTelemetry initialized''],
        shutdowns =
          [TracerProvider_Shutdown_call
             \<lparr>tp_batcher = stdouttrace_Exporter, tp_resource = Resource ''acai-server''\<rparr>]\<rparr>)"
  unfolding init_then_shutdown_def InitTelemetry_stdout
  by (simp add: Shutdown_func_eq) (simp add: stdout_sdk_def)

text \<open>
  Claim C5, as the code has it. A failure of \<open>resource.New\<close>, \<open>stdoutmetric.New\<close> or
  \<open>stdouttrace.New\<close> ends \<open>InitTelemetry\<close> with that error and no shutdown function,
  and an error it returns is one of those three. After a failure of the resource or of
  the metric exporter the process-wide state is as it was. After a failure of the trace
  exporter the meter provider has been registered already and stays registered. The
  tracer provider is never registered by a failing call, and no provider is shut down.
\<close>

theorem InitTelemetry_failure:
  "(resource_New k serviceName = Inl e \<longrightarrow> InitTelemetry k serviceName g = (Inl e, g)) \<and>
   (resource_New k serviceName = Inr res \<and> stdoutmetric_New k = Inl e \<longrightarrow>
      InitTelemetry k serviceName g = (Inl e, g)) \<and>
   (resource_New k serviceName = Inr res \<and> stdoutmetric_New k = Inr metricExp \<and>
    stdouttrace_New k = Inl e \<longrightarrow>
      InitTelemetry k serviceName g =
        (Inl e, g\<lparr>meter_provider :=
                    Some (NewMeterProvider (NewPeriodicReader metricExp (10 * Second)) res)\<rparr>)) \<and>
   (InitTelemetry k serviceName g = (Inl e, g') \<longrightarrow>
      (resource_New k serviceName = Inl e \<or> stdoutmetric_New k = Inl e \<or>
       stdouttrace_New k = Inl e) \<and>
      tracer_provider g' = tracer_provider g \<and> shutdowns g' = shutdowns g \<and> slog g' = slog g)"
  by (auto simp: InitTelemetry_def Let_def SetMeterProvider_def SetTracerProvider_def
      slog_Info_def split: sum.splits)

theorem InitTelemetry_failure_witness:
  "resource_New (stdout_sdk (Some metric_exporter_step) None None) ''acai-server'' =
     Inr (Resource ''acai-server'') \<and>
   stdoutmetric_New (stdout_sdk (Some metric_exporter_step) None None) = Inl (Error ''stdoutmetric'') \<and>
   InitTelemetry (stdout_sdk (Some metric_exporter_step) None None) ''acai-server'' fresh_otel =
     (Inl (Error ''stdoutmetric''), fresh_otel)"
proof -
  have h: "resource_New (stdout_sdk (Some metric_exporter_step) None None) ''acai-server'' =
     Inr (Resource ''acai-server'') \<and>
   stdoutmetric_New (stdout_sdk (Some metric_exporter_step) None None) = Inl (Error ''stdoutmetric'')"
    by (simp add: stdout_sdk_def)
  with InitTelemetry_failure [of "stdout_sdk (Some metric_exporter_step) None None" "''acai-server''"
      "Error ''stdoutmetric''" fresh_otel "Resource ''acai-server''"]
  show ?thesis by blast
qed

text \<open>
  Against C5 as the spec words it, which says that no provider is registered after a
  failure: when the trace exporter fails, the call returns the error and the meter
  provider, unset before, is set.
\<close>

theorem InitTelemetry_leaves_meter_provider_counterexample:
  "meter_provider fresh_otel = None \<and>
   InitTelemetry (stdout_sdk (Some trace_exporter_step) None None) ''acai-server'' fresh_otel =
     (Inl (Error ''stdouttrace''),
      \<lparr>meter_provider =
         Some \<lparr>mp_reader = \<lparr>reader_exporter = stdoutmetric_Exporter, reader_interval = 10000000000\<rparr>,
               mp_resource = Resource ''acai-server''\<rparr>,
       tracer_provider = None, slog = [], shutdowns = []\<rparr>)"
  by (simp add: InitTelemetry_def stdout_sdk_def fresh_otel_def Let_def SetMeterProvider_def
      NewPeriodicReader_def NewMeterProvider_def Second_def)

section \<open>Properties of the concurrent join\<close>

subsection \<open>The join: invariant\<close>

lemma join_inv_begin: "join_inv a conv (StartConversation_begin conv)"
  by (simp add: join_inv_def StartConversation_begin_def)

lemma join_inv_main_step:
  assumes "join_inv a conv s" and "main_step s = Some s'"
  shows "join_inv a conv s'"
proof (cases "main_thread s")
  case go_title
  with assms show ?thesis by (auto simp: join_inv_def main_step_def)
next
  case go_reply
  with assms show ?thesis by (auto simp: join_inv_def main_step_def split: title_pc.splits)
next
  case recv_title
  with assms show ?thesis
    by (auto simp: join_inv_def main_step_def split: title_pc.splits reply_pc.splits list.splits)
next
  case (recv_reply title)
  with assms show ?thesis
    by (auto simp: join_inv_def main_step_def split: title_pc.splits reply_pc.splits list.splits)
next
  case (check_err title replyResult)
  with assms show ?thesis
    by (auto simp: join_inv_def main_step_def split: option.splits)
next
  case (return_nil e)
  with assms show ?thesis by (simp add: main_step_def)
next
  case (assign_reply title replyResult)
  with assms show ?thesis by (auto simp: join_inv_def main_step_def)
next
  case (assign_Title title reply)
  with assms show ?thesis by (auto simp: join_inv_def main_step_def)
next
  case (joined title reply)
  with assms show ?thesis by (simp add: main_step_def)
qed

lemma title_phase_cases: "title_phase pc = before_go \<or> title_phase pc = in_flight \<or> title_phase pc = received"
  by (cases pc) simp_all

lemma reply_phase_cases: "reply_phase pc = before_go \<or> reply_phase pc = in_flight \<or> reply_phase pc = received"
  by (cases pc) simp_all

lemma conversation_before_join:
  "join_inv a conv s \<Longrightarrow> title_phase (main_thread s) = in_flight \<Longrightarrow> shared_conversation s = conv"
  by (cases "main_thread s") (simp_all add: join_inv_def)

lemma conversation_before_join':
  "join_inv a conv s \<Longrightarrow> reply_phase (main_thread s) = in_flight \<Longrightarrow> shared_conversation s = conv"
  by (cases "main_thread s") (simp_all add: join_inv_def)

lemma join_inv_title_step:
  assumes "join_inv a conv s" and "title_step a s = Some s'"
  shows "join_inv a conv s'"
proof -
  from title_phase_cases [of "main_thread s"] show ?thesis
  proof (elim disjE)
    assume "title_phase (main_thread s) = before_go"
    with assms show ?thesis by (simp add: join_inv_def title_step_def)
  next
    assume p: "title_phase (main_thread s) = in_flight"
    then have c: "shared_conversation s = conv" using assms(1) by (rule conversation_before_join [rotated])
    from assms p show ?thesis
      by (auto simp: join_inv_def title_step_def c title_value_def channel_capacity_def
          split: title_pc.splits prod.splits if_splits)
  next
    assume "title_phase (main_thread s) = received"
    with assms show ?thesis by (simp add: join_inv_def title_step_def)
  qed
qed

lemma join_inv_reply_step:
  assumes "join_inv a conv s" and "reply_step a s = Some s'"
  shows "join_inv a conv s'"
proof -
  from reply_phase_cases [of "main_thread s"] show ?thesis
  proof (elim disjE)
    assume "reply_phase (main_thread s) = before_go"
    with assms show ?thesis by (simp add: join_inv_def reply_step_def)
  next
    assume p: "reply_phase (main_thread s) = in_flight"
    then have c: "shared_conversation s = conv" using assms(1) by (rule conversation_before_join' [rotated])
    from assms p show ?thesis
      by (auto simp: join_inv_def reply_step_def c reply_value_def channel_capacity_def
          split: reply_pc.splits prod.splits if_splits)
  next
    assume "reply_phase (main_thread s) = received"
    with assms show ?thesis by (simp add: join_inv_def reply_step_def)
  qed
qed

lemma join_inv_turn: "join_inv a conv s \<Longrightarrow> join_inv a conv (turn a t s)"
  by (cases t) (auto simp: turn_def split: option.splits
      intro: join_inv_main_step join_inv_title_step join_inv_reply_step)

lemma join_inv_exec: "join_inv a conv s \<Longrightarrow> join_inv a conv (exec a sched s)"
  unfolding exec_def by (induction sched arbitrary: s) (simp_all add: join_inv_turn)

subsection \<open>The join: progress and termination under fair rounds\<close>

lemma todo_main_step:
  assumes "join_inv a conv s" and "main_step s = Some s'"
  shows "todo s' < todo s"
  using assms
  by (cases "main_thread s")
     (auto simp: join_inv_def main_step_def todo_def split: list.splits option.splits)

lemma todo_title_step:
  assumes "title_step a s = Some s'"
  shows "todo s' < todo s"
  using assms
  by (cases "title_thread s")
     (auto simp: title_step_def todo_def split: prod.splits if_splits)

lemma todo_reply_step:
  assumes "reply_step a s = Some s'"
  shows "todo s' < todo s"
  using assms
  by (cases "reply_thread s")
     (auto simp: reply_step_def todo_def split: prod.splits if_splits)

lemma todo_step: "join_inv a conv s \<Longrightarrow> step a t s = Some s' \<Longrightarrow> todo s' < todo s"
  by (cases t) (auto intro: todo_main_step todo_title_step todo_reply_step)

lemma todo_turn: "join_inv a conv s \<Longrightarrow> todo (turn a t s) \<le> todo s"
  using todo_step [of a conv s t] by (auto simp: turn_def split: option.splits dest!: less_imp_le)

lemma turn_Some: "step a t s = Some s' \<Longrightarrow> turn a t s = s'"
  by (simp add: turn_def)

lemma turn_None: "step a t s = None \<Longrightarrow> turn a t s = s"
  by (simp add: turn_def)

lemma exec_append: "exec a (xs @ ys) s = exec a ys (exec a xs s)"
  by (simp add: exec_def)

lemma exec_round:
  "exec a [Main, TitleGoroutine, ReplyGoroutine] s =
     turn a ReplyGoroutine (turn a TitleGoroutine (turn a Main s))"
  by (simp add: exec_def)

text \<open>Some thread can step while the calling goroutine has not finished.\<close>

lemma blocked_main:
  assumes "join_inv a conv s" and "\<not> finished (main_thread s)" and "main_step s = None"
  shows "(\<exists>s'. title_step a s = Some s') \<or>
         (title_step a s = None \<and> (\<exists>s'. reply_step a s = Some s'))"
proof (cases "main_thread s")
  case recv_title
  with assms show ?thesis
    by (auto simp: join_inv_def main_step_def title_step_def channel_capacity_def
        split: list.splits title_pc.splits prod.splits)
next
  case (recv_reply title)
  with assms show ?thesis
    by (auto simp: join_inv_def main_step_def title_step_def reply_step_def channel_capacity_def
        split: list.splits reply_pc.splits prod.splits)
qed (use assms in \<open>auto simp: main_step_def split: option.splits\<close>)

lemma round_progress:
  assumes i: "join_inv a conv s" and nf: "\<not> finished (main_thread s)"
  shows "todo (exec a [Main, TitleGoroutine, ReplyGoroutine] s) < todo s"
proof -
  let ?m = "turn a Main s"
  let ?t = "turn a TitleGoroutine ?m"
  let ?r = "turn a ReplyGoroutine ?t"
  have im: "join_inv a conv ?m" using i by (rule join_inv_turn)
  have it: "join_inv a conv ?t" using im by (rule join_inv_turn)
  have m: "todo ?m \<le> todo s" using i by (rule todo_turn)
  have t: "todo ?t \<le> todo ?m" using im by (rule todo_turn)
  have r: "todo ?r \<le> todo ?t" using it by (rule todo_turn)
  have "todo ?m < todo s \<or> todo ?t < todo ?m \<or> todo ?r < todo ?t"
  proof (cases "main_step s")
    case (Some s')
    then have "turn a Main s = s'" by (simp add: turn_def)
    with todo_main_step [OF i Some] show ?thesis by simp
  next
    case None
    then have ms: "?m = s" by (simp add: turn_def)
    from blocked_main [OF i nf None] show ?thesis
    proof
      assume "\<exists>s'. title_step a s = Some s'"
      then obtain s' where s': "title_step a s = Some s'" ..
      then have "turn a TitleGoroutine s = s'" by (simp add: turn_def)
      with todo_title_step [OF s'] ms show ?thesis by simp
    next
      assume b: "title_step a s = None \<and> (\<exists>s'. reply_step a s = Some s')"
      then obtain s' where s': "reply_step a s = Some s'" by blast
      from b have ts: "?t = s" using ms by (simp add: turn_def)
      from s' have "turn a ReplyGoroutine s = s'" by (simp add: turn_def)
      with todo_reply_step [OF s'] ts show ?thesis by simp
    qed
  qed
  with m t r show ?thesis unfolding exec_round by linarith
qed

lemma finished_turn: "finished (main_thread s) \<Longrightarrow> join_inv a conv s \<Longrightarrow> turn a t s = s"
  by (cases t; cases "main_thread s")
     (auto simp: turn_def main_step_def title_step_def reply_step_def join_inv_def
       split: option.splits)

lemma finished_exec: "finished (main_thread s) \<Longrightarrow> join_inv a conv s \<Longrightarrow> exec a sched s = s"
  unfolding exec_def by (induction sched) (simp_all add: finished_turn)

lemma rounds_Suc: "rounds (Suc n) = rounds n @ [Main, TitleGoroutine, ReplyGoroutine]"
proof -
  have "replicate (Suc n) x = replicate n x @ [x]" for x :: "thread list"
    by (simp add: replicate_append_same)
  then show ?thesis unfolding rounds_def by (simp del: replicate.simps)
qed

lemma after_rounds:
  assumes "join_inv a conv s"
  shows "finished (main_thread (exec a (rounds n) s)) \<or> todo (exec a (rounds n) s) + n \<le> todo s"
proof (induction n)
  case 0
  show ?case by (simp add: rounds_def exec_def)
next
  case (Suc n)
  let ?s = "exec a (rounds n) s"
  have i: "join_inv a conv ?s" using assms by (rule join_inv_exec)
  let ?round = "[Main, TitleGoroutine, ReplyGoroutine]"
  have e: "exec a (rounds (Suc n)) s = exec a ?round ?s"
    unfolding rounds_Suc exec_append ..
  show ?case
  proof (cases "finished (main_thread ?s)")
    case True
    then show ?thesis unfolding e by (simp add: finished_exec [OF True i])
  next
    case False
    with Suc.IH have "todo ?s + n \<le> todo s" by simp
    moreover have "todo (exec a ?round ?s) < todo ?s" using i False by (rule round_progress)
    ultimately show ?thesis unfolding e by simp
  qed
qed

lemma todo_0_finished: "join_inv a conv s \<Longrightarrow> todo s = 0 \<Longrightarrow> finished (main_thread s)"
  by (cases "main_thread s") (simp_all add: todo_def)

lemma todo_bound: "join_inv a conv s \<Longrightarrow> todo s \<le> 11"
  by (cases "main_thread s"; cases "title_thread s"; cases "reply_thread s")
     (simp_all add: todo_def join_inv_def)

lemma rounds_finish:
  assumes "join_inv a conv s"
  shows "finished (main_thread (exec a (rounds 11) s))"
proof -
  from after_rounds [OF assms, of 11] todo_bound [OF assms]
  have "finished (main_thread (exec a (rounds 11) s)) \<or> todo (exec a (rounds 11) s) = 0"
    by linarith
  then show ?thesis
    using todo_0_finished [OF join_inv_exec [OF assms]] by blast
qed

subsection \<open>The join: what a finished call holds\<close>

lemma exec_Nil: "exec a [] s = s"
  by (simp add: exec_def)

lemma exec_Cons: "exec a (t # ts) s = exec a ts (turn a t s)"
  by (simp add: exec_def)

lemmas run_defs =
  StartConversation_def exec_Nil exec_Cons turn_def main_step_def title_step_def
  reply_step_def StartConversation_begin_def channel_capacity_def

lemma finished_result:
  assumes "join_inv a conv s" and "finished (main_thread s)"
  shows "main_thread s =
           (case err (reply_value a conv) of
              Some e \<Rightarrow> return_nil (InternalErrorWith e)
            | None \<Rightarrow> joined (title_value a conv) (val (reply_value a conv)))"
  using assms by (cases "main_thread s") (auto simp: join_inv_def split: option.splits)

lemma join_inv_StartConversation: "join_inv a conv (StartConversation a conv sched)"
  unfolding StartConversation_def by (rule join_inv_exec) (rule join_inv_begin)

lemma StartConversation_finishes:
  "finished (main_thread (StartConversation a conv (sched @ rounds 11)))"
proof -
  have "join_inv a conv (exec a sched (StartConversation_begin conv))"
    by (rule join_inv_exec) (rule join_inv_begin)
  then show ?thesis
    unfolding StartConversation_def exec_append by (rule rounds_finish)
qed

lemma StartConversation_result:
  "finished (main_thread (StartConversation a conv sched)) \<Longrightarrow>
   main_thread (StartConversation a conv sched) =
     (case err (reply_value a conv) of
        Some e \<Rightarrow> return_nil (InternalErrorWith e)
      | None \<Rightarrow> joined (title_value a conv) (val (reply_value a conv)))"
  using join_inv_StartConversation by (rule finished_result)

lemma StartConversation_conversation:
  "shared_conversation (StartConversation a conv sched) =
     conversation_at conv (main_thread (StartConversation a conv sched))"
  using join_inv_StartConversation [of a conv sched] by (simp add: join_inv_def)

lemma StartConversation_locals:
  "locals_inv (title_value a conv) (reply_value a conv) (main_thread (StartConversation a conv sched))"
  using join_inv_StartConversation [of a conv sched] by (simp add: join_inv_def)

lemma local_title_inv:
  "join_inv a conv s \<Longrightarrow> local_title (main_thread s) = Some t \<Longrightarrow> t = title_value a conv"
  by (cases "main_thread s") (auto simp: join_inv_def)

lemma inspects_inv:
  "join_inv a conv s \<Longrightarrow> inspects (main_thread s) \<Longrightarrow>
     title_thread s = title_done \<and> reply_thread s = reply_done \<and> titleCh s = [] \<and> replyCh s = []"
  by (cases "main_thread s") (auto simp: join_inv_def)

lemma channels_inv:
  "join_inv a conv s \<Longrightarrow>
     length (titleCh s) \<le> channel_capacity \<and> length (replyCh s) \<le> channel_capacity"
  by (cases "main_thread s"; cases "title_thread s"; cases "reply_thread s")
     (simp_all add: join_inv_def channel_capacity_def)

subsection \<open>The join: the claims\<close>

lemma space_encodings_eval:
  "space_encodings =
     [[9], [10], [11], [12], [13], [32], [194, 133], [194, 160], [225, 154, 128],
      [226, 128, 128], [226, 128, 129], [226, 128, 130], [226, 128, 131], [226, 128, 132],
      [226, 128, 133], [226, 128, 134], [226, 128, 135], [226, 128, 136], [226, 128, 137],
      [226, 128, 138], [226, 128, 168], [226, 128, 169], [226, 128, 175], [226, 129, 159],
      [227, 128, 128]]"
  by (simp add: space_encodings_def White_Space_def EncodeRune_def)

lemmas TrimSpace_eval =
  TrimSpace_def leading_space_def trailing_space_def space_encodings_eval byte_def

text \<open>
  Claim C2. When \<open>Reply\<close> delivers an error \<open>e\<close>, whatever \<open>Title\<close> delivers: after any
  schedule followed by eleven rounds the calling goroutine has executed
  \<open>return nil, twirp.InternalErrorWith(e)\<close>; under no schedule does it finish another way;
  and the conversation is never given a title.
\<close>

theorem reply_error_is_returned:
  assumes "assist_Reply_op a conv = (r, Some e)"
  shows "main_thread (StartConversation a conv (sched @ rounds 11)) =
           return_nil (InternalErrorWith e) \<and>
         (finished (main_thread (StartConversation a conv sched')) \<longrightarrow>
            main_thread (StartConversation a conv sched') = return_nil (InternalErrorWith e)) \<and>
         shared_conversation (StartConversation a conv sched') = conv"
proof -
  have rv: "err (reply_value a conv) = Some e"
    using assms by (simp add: reply_value_def)
  have fin: "main_thread (StartConversation a conv sch) = return_nil (InternalErrorWith e)"
    if "finished (main_thread (StartConversation a conv sch))" for sch
    using StartConversation_result [OF that] rv by simp
  have "conversation_at conv (main_thread (StartConversation a conv sched')) = conv"
    using StartConversation_locals [of a conv sched'] rv
    by (cases "main_thread (StartConversation a conv sched')") simp_all
  then show ?thesis
    using fin [OF StartConversation_finishes] fin [of sched']
    by (simp add: StartConversation_conversation)
qed

theorem reply_error_is_returned_witness:
  "assist_Reply_op (fixed_assist (''Barcelona weather'', None) ([], Some (Error ''openai: 500'')))
      weather_conversation = ([], Some (Error ''openai: 500'')) \<and>
   main_thread (StartConversation
      (fixed_assist (''Barcelona weather'', None) ([], Some (Error ''openai: 500'')))
      weather_conversation ([Main, TitleGoroutine] @ rounds 11)) =
     return_nil (InternalErrorWith (Error ''openai: 500'')) \<and>
   finished (main_thread (StartConversation
      (fixed_assist (''Barcelona weather'', None) ([], Some (Error ''openai: 500'')))
      weather_conversation ([Main, TitleGoroutine] @ rounds 11))) \<and>
   shared_conversation (StartConversation
      (fixed_assist (''Barcelona weather'', None) ([], Some (Error ''openai: 500'')))
      weather_conversation ([Main, TitleGoroutine] @ rounds 11)) = weather_conversation"
proof -
  let ?a = "fixed_assist (''Barcelona weather'', None) ([], Some (Error ''openai: 500''))"
  have h: "assist_Reply_op ?a weather_conversation = ([], Some (Error ''openai: 500''))"
    by (simp add: fixed_assist_def)
  note c = reply_error_is_returned [OF h, of "[Main, TitleGoroutine]" "[Main, TitleGoroutine] @ rounds 11"]
  from c have 1: "main_thread (StartConversation ?a weather_conversation ([Main, TitleGoroutine] @ rounds 11)) =
     return_nil (InternalErrorWith (Error ''openai: 500''))" by (rule conjunct1)
  from c have 3: "shared_conversation (StartConversation ?a weather_conversation
     ([Main, TitleGoroutine] @ rounds 11)) = weather_conversation" by blast
  have 2: "finished (main_thread (StartConversation ?a weather_conversation ([Main, TitleGoroutine] @ rounds 11)))"
    unfolding 1 by simp
  from h 1 2 3 show ?thesis by blast
qed

text \<open>
  Claim C3. When \<open>Title\<close> delivers an error or a string that \<open>TrimSpace\<close> empties: if
  \<open>Reply\<close> succeeded with \<open>r\<close>, then after any schedule followed by eleven rounds the
  call is at the end of the snippet with the title \<open>Untitled conversation\<close> in the
  conversation and \<open>r\<close> as the reply; under every schedule the local \<open>title\<close> holds
  that constant wherever it is in scope; and an error that the call returns is the
  reply's, wrapped, never one of the title operation.
\<close>

theorem title_failure_falls_back:
  assumes "assist_Title_op a conv = (t, te)" and "te \<noteq> None \<or> TrimSpace t = []"
  shows "(assist_Reply_op a conv = (r, None) \<longrightarrow>
            main_thread (StartConversation a conv (sched @ rounds 11)) =
              joined ''Untitled conversation'' r \<and>
            Title (shared_conversation (StartConversation a conv (sched @ rounds 11))) =
              ''Untitled conversation'') \<and>
         (local_title (main_thread (StartConversation a conv sched')) = Some title \<longrightarrow>
            title = ''Untitled conversation'') \<and>
         (main_thread (StartConversation a conv sched') = return_nil e \<longrightarrow>
            (\<exists>re. snd (assist_Reply_op a conv) = Some re \<and> e = InternalErrorWith re))"
proof -
  have tv: "title_value a conv = ''Untitled conversation''"
    using assms by (auto simp: title_value_def)
  have 1: "main_thread (StartConversation a conv (sched @ rounds 11)) =
             joined ''Untitled conversation'' r \<and>
           Title (shared_conversation (StartConversation a conv (sched @ rounds 11))) =
             ''Untitled conversation''"
    if "assist_Reply_op a conv = (r, None)"
  proof -
    have "reply_value a conv = \<lparr>val = r, err = None\<rparr>"
      using that by (simp add: reply_value_def)
    then have "main_thread (StartConversation a conv (sched @ rounds 11)) =
                 joined ''Untitled conversation'' r"
      using StartConversation_result [OF StartConversation_finishes, of a conv sched] tv by simp
    then show ?thesis by (simp add: StartConversation_conversation)
  qed
  have 2: "title = ''Untitled conversation''"
    if "local_title (main_thread (StartConversation a conv sched')) = Some title"
    using local_title_inv [OF join_inv_StartConversation that] tv by simp
  have 3: "\<exists>re. snd (assist_Reply_op a conv) = Some re \<and> e = InternalErrorWith re"
    if "main_thread (StartConversation a conv sched') = return_nil e"
    using StartConversation_locals [of a conv sched'] that
    by (auto simp: reply_value_def split: option.splits prod.splits)
  from 1 2 3 show ?thesis by blast
qed

theorem title_failure_falls_back_witness:
  "assist_Title_op (fixed_assist (''   '', None) (''Sunny'', None)) weather_conversation =
     (''   '', None) \<and>
   TrimSpace ''   '' = [] \<and>
   assist_Reply_op (fixed_assist (''   '', None) (''Sunny'', None)) weather_conversation =
     (''Sunny'', None) \<and>
   main_thread (StartConversation (fixed_assist (''   '', None) (''Sunny'', None))
      weather_conversation ([Main, Main, ReplyGoroutine] @ rounds 11)) =
     joined ''Untitled conversation'' ''Sunny'' \<and>
   Title (shared_conversation (StartConversation (fixed_assist (''   '', None) (''Sunny'', None))
      weather_conversation ([Main, Main, ReplyGoroutine] @ rounds 11))) = ''Untitled conversation'' \<and>
   local_title (main_thread (StartConversation (fixed_assist (''   '', None) (''Sunny'', None))
      weather_conversation ([Main, Main, ReplyGoroutine] @ rounds 11))) =
     Some ''Untitled conversation''"
proof -
  let ?a = "fixed_assist (''   '', None) (''Sunny'', None)"
  let ?s = "StartConversation ?a weather_conversation ([Main, Main, ReplyGoroutine] @ rounds 11)"
  have h1: "assist_Title_op ?a weather_conversation = (''   '', None)"
    by (simp add: fixed_assist_def)
  have b: "TrimSpace ''   '' = []"
    by (simp add: TrimSpace_eval)
  then have h2: "None \<noteq> (None :: error option) \<or> TrimSpace ''   '' = []" ..
  have h3: "assist_Reply_op ?a weather_conversation = (''Sunny'', None)"
    by (simp add: fixed_assist_def)
  note c = title_failure_falls_back [OF h1 h2, of "''Sunny''" "[Main, Main, ReplyGoroutine]"]
  from c h3 have 1: "main_thread ?s = joined ''Untitled conversation'' ''Sunny''"
    and 2: "Title (shared_conversation ?s) = ''Untitled conversation''"
    by blast+
  have 3: "local_title (main_thread ?s) = Some ''Untitled conversation''"
    unfolding 1 by simp
  from h1 b h3 1 2 3 show ?thesis by blast
qed

lemma Orchestrate_joined:
  "main_thread (StartConversation a conv sched) = joined t r \<Longrightarrow>
   shared_conversation (StartConversation a conv sched) = conv\<lparr>Title := t\<rparr> \<Longrightarrow>
   Orchestrate a conv sched = Some (Inr \<lparr>Title = t, Messages = Messages conv, Reply = r\<rparr>)"
  by (simp add: Orchestrate_def Let_def)

lemma Orchestrate_Some:
  "Orchestrate a conv sched = Some res \<Longrightarrow> finished (main_thread (StartConversation a conv sched))"
  by (cases "main_thread (StartConversation a conv sched)") (simp_all add: Orchestrate_def Let_def)

text \<open>
  Claim C7. When \<open>Title\<close> delivers \<open>t\<close> with no error, \<open>t\<close> is not blank, and \<open>Reply\<close>
  delivers \<open>r\<close> with no error: after any schedule followed by eleven rounds the call
  has returned the conversation with \<open>t\<close> in its title field and \<open>r\<close> in its reply
  field, both as delivered and the messages as they were, and it returns nothing else
  under any schedule. In the snippet's own terms: the call is at its end with \<open>t\<close> as
  the conversation's title and \<open>r\<close> in the local \<open>reply\<close>.
\<close>

theorem both_results_unmodified:
  assumes "assist_Title_op a conv = (t, None)" and "TrimSpace t \<noteq> []"
    and "assist_Reply_op a conv = (r, None)"
  shows "Orchestrate a conv (sched @ rounds 11) =
           Some (Inr \<lparr>Title = t, Messages = Messages conv, Reply = r\<rparr>) \<and>
         (Orchestrate a conv sched' = Some res \<longrightarrow>
            res = Inr \<lparr>Title = t, Messages = Messages conv, Reply = r\<rparr>) \<and>
         main_thread (StartConversation a conv (sched @ rounds 11)) = joined t r \<and>
         shared_conversation (StartConversation a conv (sched @ rounds 11)) = conv\<lparr>Title := t\<rparr> \<and>
         (finished (main_thread (StartConversation a conv sched')) \<longrightarrow>
            main_thread (StartConversation a conv sched') = joined t r \<and>
            shared_conversation (StartConversation a conv sched') = conv\<lparr>Title := t\<rparr>)"
proof -
  have tv: "title_value a conv = t"
    using assms by (simp add: title_value_def)
  have rv: "reply_value a conv = \<lparr>val = r, err = None\<rparr>"
    using assms by (simp add: reply_value_def)
  have fin: "main_thread (StartConversation a conv sch) = joined t r \<and>
             shared_conversation (StartConversation a conv sch) = conv\<lparr>Title := t\<rparr>"
    if "finished (main_thread (StartConversation a conv sch))" for sch
    using StartConversation_result [OF that] tv rv
    by (simp add: StartConversation_conversation)
  have orc: "Orchestrate a conv sch = Some (Inr \<lparr>Title = t, Messages = Messages conv, Reply = r\<rparr>)"
    if "finished (main_thread (StartConversation a conv sch))" for sch
    using fin [OF that] by (simp add: Orchestrate_joined)
  have 2: "res = Inr \<lparr>Title = t, Messages = Messages conv, Reply = r\<rparr>"
    if "Orchestrate a conv sched' = Some res"
    using orc [OF Orchestrate_Some [OF that]] that by simp
  show ?thesis
    using fin [OF StartConversation_finishes] fin [of sched'] orc [OF StartConversation_finishes] 2
    by blast
qed

theorem both_results_unmodified_witness:
  "assist_Title_op (fixed_assist ('' Barcelona weather'', None) (''Sunny'', None))
      weather_conversation = ('' Barcelona weather'', None) \<and>
   TrimSpace '' Barcelona weather'' \<noteq> [] \<and>
   assist_Reply_op (fixed_assist ('' Barcelona weather'', None) (''Sunny'', None))
      weather_conversation = (''Sunny'', None) \<and>
   Orchestrate (fixed_assist ('' Barcelona weather'', None) (''Sunny'', None))
      weather_conversation ([Main, Main, ReplyGoroutine, TitleGoroutine] @ rounds 11) =
     Some (Inr \<lparr>Title = '' Barcelona weather'',
                Messages = [\<lparr>Role = RoleUser, Content = ''What is the weather in Barcelona?''\<rparr>],
                Reply = ''Sunny''\<rparr>) \<and>
   main_thread (StartConversation (fixed_assist ('' Barcelona weather'', None) (''Sunny'', None))
      weather_conversation ([Main, Main, ReplyGoroutine, TitleGoroutine] @ rounds 11)) =
     joined '' Barcelona weather'' ''Sunny'' \<and>
   shared_conversation (StartConversation (fixed_assist ('' Barcelona weather'', None) (''Sunny'', None))
      weather_conversation ([Main, Main, ReplyGoroutine, TitleGoroutine] @ rounds 11)) =
     weather_conversation\<lparr>Title := '' Barcelona weather''\<rparr>"
proof -
  let ?a = "fixed_assist ('' Barcelona weather'', None) (''Sunny'', None)"
  have h1: "assist_Title_op ?a weather_conversation = ('' Barcelona weather'', None)"
    by (simp add: fixed_assist_def)
  have h2: "TrimSpace '' Barcelona weather'' \<noteq> []"
    by (simp add: TrimSpace_eval)
  have h3: "assist_Reply_op ?a weather_conversation = (''Sunny'', None)"
    by (simp add: fixed_assist_def)
  have m: "Messages weather_conversation =
      [\<lparr>Role = RoleUser, Content = ''What is the weather in Barcelona?''\<rparr>]"
    by (simp add: weather_conversation_def)
  note c = both_results_unmodified [OF h1 h2 h3, of "[Main, Main, ReplyGoroutine, TitleGoroutine]"]
  from c have o: "Orchestrate ?a weather_conversation
      ([Main, Main, ReplyGoroutine, TitleGoroutine] @ rounds 11) =
     Some (Inr \<lparr>Title = '' Barcelona weather'', Messages = Messages weather_conversation,
                Reply = ''Sunny''\<rparr>)"
    by blast
  from h1 h2 h3 c o [unfolded m] show ?thesis by blast
qed

text \<open>
  Claim C8. Under every schedule, when the calling goroutine is at or past the test
  of \<open>replyResult.err\<close>, the first place that reads a delivered value, both goroutines
  have sent and both values have been received: the two channels are empty again.
  Neither channel ever holds more than one value. Either goroutine can be the first to
  deliver: one schedule has the title sent while \<open>Reply\<close> has not returned, another
  the reply sent while \<open>Title\<close> has not returned.
\<close>

theorem join_waits_for_both:
  "(inspects (main_thread (StartConversation a conv sched)) \<longrightarrow>
      title_thread (StartConversation a conv sched) = title_done \<and>
      reply_thread (StartConversation a conv sched) = reply_done \<and>
      titleCh (StartConversation a conv sched) = [] \<and>
      replyCh (StartConversation a conv sched) = []) \<and>
   length (titleCh (StartConversation a conv sched)) \<le> 1 \<and>
   length (replyCh (StartConversation a conv sched)) \<le> 1 \<and>
   title_thread (StartConversation a conv [Main, Main, TitleGoroutine, TitleGoroutine]) = title_done \<and>
   reply_thread (StartConversation a conv [Main, Main, TitleGoroutine, TitleGoroutine]) = reply_call \<and>
   reply_thread (StartConversation a conv [Main, Main, ReplyGoroutine, ReplyGoroutine]) = reply_done \<and>
   title_thread (StartConversation a conv [Main, Main, ReplyGoroutine, ReplyGoroutine]) = title_call"
proof -
  have "title_thread (StartConversation a conv [Main, Main, TitleGoroutine, TitleGoroutine]) = title_done"
    and "reply_thread (StartConversation a conv [Main, Main, TitleGoroutine, TitleGoroutine]) = reply_call"
    and "reply_thread (StartConversation a conv [Main, Main, ReplyGoroutine, ReplyGoroutine]) = reply_done"
    and "title_thread (StartConversation a conv [Main, Main, ReplyGoroutine, ReplyGoroutine]) = title_call"
    by (simp_all add: run_defs split: prod.splits)
  then show ?thesis
    using inspects_inv [OF join_inv_StartConversation, of a conv sched]
      channels_inv [OF join_inv_StartConversation, of a conv sched]
    by (simp add: channel_capacity_def)
qed

theorem join_waits_for_both_witness:
  "inspects (main_thread (StartConversation (fixed_assist (''Barcelona weather'', None) (''Sunny'', None))
      weather_conversation ([Main, Main, ReplyGoroutine] @ rounds 11))) \<and>
   title_thread (StartConversation (fixed_assist (''Barcelona weather'', None) (''Sunny'', None))
      weather_conversation ([Main, Main, ReplyGoroutine] @ rounds 11)) = title_done \<and>
   reply_thread (StartConversation (fixed_assist (''Barcelona weather'', None) (''Sunny'', None))
      weather_conversation ([Main, Main, ReplyGoroutine] @ rounds 11)) = reply_done"
proof -
  let ?s = "StartConversation (fixed_assist (''Barcelona weather'', None) (''Sunny'', None))
      weather_conversation ([Main, Main, ReplyGoroutine] @ rounds 11)"
  have "finished (main_thread ?s)" by (rule StartConversation_finishes)
  then have "inspects (main_thread ?s)" by (cases "main_thread ?s") simp_all
  then show ?thesis
    using join_waits_for_both
      [of "fixed_assist (''Barcelona weather'', None) (''Sunny'', None)" weather_conversation
          "[Main, Main, ReplyGoroutine] @ rounds 11"]
    by simp
qed

lemma assist_Title_failed:
  assumes "Messages conv \<noteq> []"
  shows "assist_Title (\<lambda>_. Inl e) conv = Return ''New conversation'' None"
  using assms by (cases "Messages conv") (simp_all add: assist_Title_def Let_def)

lemma assist_Title_no_choice:
  assumes "Messages conv \<noteq> []"
  shows "assist_Title (\<lambda>_. Inr []) conv = Return ''New conversation'' None"
  using assms by (cases "Messages conv") (simp_all add: assist_Title_def Let_def)

lemma assist_Title_empty_choice:
  assumes "Messages conv \<noteq> []"
    and "Trim (ReplaceAll_byte c (CHR 0x0A) (CHR '' '')) title_cutset = []"
  shows "assist_Title (\<lambda>_. Inr (c # cs)) conv = Return ''New conversation'' None"
  using assms by (cases "Messages conv") (simp_all add: assist_Title_def Let_def)

lemma assist_Title_Return:
  assumes "assist_Title cli conv = Return s e"
  shows "s = ''New conversation'' \<and> e = None"
  using assms
  by (auto simp: assist_Title_def Let_def split: option.splits sum.splits if_splits list.splits)

lemma title_goroutine_falls_back:
  assumes "assist_Title_op a conv = (t, te)" and "te \<noteq> None \<or> TrimSpace t = []"
  shows "title_thread (StartConversation a conv [Main, TitleGoroutine]) =
           title_send ''Untitled conversation''"
  using assms by (auto simp: run_defs)

text \<open>
  Claim C9. The title goroutine sends \<open>Untitled conversation\<close> when \<open>Title\<close> delivers an
  error or a blank string. \<open>Title\<close> itself returns \<open>New conversation\<close>, with a \<open>nil\<close>
  error, when the completion fails, has no choice, or has a first choice that the
  clean-up empties, and it returns nothing else through a \<open>return\<close> of the snippet. The
  two constants differ.
\<close>

theorem fallback_titles_differ:
  "(assist_Title_op a conv = (t, te) \<and> (te \<noteq> None \<or> TrimSpace t = []) \<longrightarrow>
      title_thread (StartConversation a conv [Main, TitleGoroutine]) =
        title_send ''Untitled conversation'') \<and>
   (Messages conv' \<noteq> [] \<longrightarrow>
      assist_Title (\<lambda>_. Inl e) conv' = Return ''New conversation'' None \<and>
      assist_Title (\<lambda>_. Inr []) conv' = Return ''New conversation'' None \<and>
      (Trim (ReplaceAll_byte c (CHR 0x0A) (CHR '' '')) title_cutset = [] \<longrightarrow>
         assist_Title (\<lambda>_. Inr (c # cs)) conv' = Return ''New conversation'' None)) \<and>
   (assist_Title cli conv' = Return s e' \<longrightarrow> s = ''New conversation'' \<and> e' = None) \<and>
   ''Untitled conversation'' \<noteq> ''New conversation''"
  using title_goroutine_falls_back [of a conv t te] assist_Title_failed [of conv' e]
    assist_Title_no_choice [of conv'] assist_Title_empty_choice [of conv' c cs]
    assist_Title_Return [of cli conv' s e']
  by simp

lemma dashes_cut: "Trim (ReplaceAll_byte '' -'' (CHR 0x0A) (CHR '' '')) title_cutset = []"
  by (simp add: Trim_def ReplaceAll_byte_def title_cutset_def)

theorem fallback_titles_differ_witness:
  "assist_Title_op (fixed_assist ([], Some (Error ''openai: 500'')) (''Sunny'', None))
       weather_conversation = ([], Some (Error ''openai: 500'')) \<and>
   title_thread (StartConversation
       (fixed_assist ([], Some (Error ''openai: 500'')) (''Sunny'', None))
       weather_conversation [Main, TitleGoroutine]) = title_send ''Untitled conversation'' \<and>
   Messages weather_conversation \<noteq> [] \<and>
   assist_Title (\<lambda>_. Inl (Error ''openai: 500'')) weather_conversation =
     Return ''New conversation'' None \<and>
   assist_Title (\<lambda>_. Inr []) weather_conversation = Return ''New conversation'' None \<and>
   Trim (ReplaceAll_byte '' -'' (CHR 0x0A) (CHR '' '')) title_cutset = [] \<and>
   assist_Title (\<lambda>_. Inr ['' -'']) weather_conversation = Return ''New conversation'' None"
proof -
  let ?a = "fixed_assist ([], Some (Error ''openai: 500'')) (''Sunny'', None)"
  have h1: "assist_Title_op ?a weather_conversation = ([], Some (Error ''openai: 500''))"
    by (simp add: fixed_assist_def)
  have h2: "Messages weather_conversation \<noteq> []"
    by (simp add: weather_conversation_def)
  note c = fallback_titles_differ [of ?a weather_conversation "[]" "Some (Error ''openai: 500'')"
      weather_conversation "Error ''openai: 500''" "'' -''" "[]"]
  from c h1 have 1: "title_thread (StartConversation ?a weather_conversation [Main, TitleGoroutine]) =
      title_send ''Untitled conversation''"
    by blast
  from c h2 dashes_cut have 2: "assist_Title (\<lambda>_. Inl (Error ''openai: 500'')) weather_conversation =
      Return ''New conversation'' None"
    and 3: "assist_Title (\<lambda>_. Inr []) weather_conversation = Return ''New conversation'' None"
    and 4: "assist_Title (\<lambda>_. Inr ['' -'']) weather_conversation = Return ''New conversation'' None"
    by blast+
  from h1 1 h2 2 3 dashes_cut 4 show ?thesis by blast
qed

section \<open>The string functions and Title on examples\<close>

lemma TrimSpace_examples:
  "TrimSpace [] = []"
  "TrimSpace ''  Go syntax\<newline>'' = ''Go syntax''"
  "TrimSpace ([CHR 0xC2, CHR 0xA0] @ ''a b'' @ [CHR 0xE3, CHR 0x80, CHR 0x80, CHR 0x09]) = ''a b''"
  "TrimSpace [CHR 0xE2, CHR 0x80, CHR 0xA8, CHR 0x20, CHR 0xC2, CHR 0x85] = []"
  "TrimSpace [CHR 0x20, CHR 0xC2, CHR 0x20] = [CHR 0xC2]"
  "TrimSpace [CHR 0xE2, CHR 0x80, CHR 0x8B] = [CHR 0xE2, CHR 0x80, CHR 0x8B]"
  by (simp_all add: TrimSpace_eval)

lemma assist_Title_example:
  "assist_Title (\<lambda>p. if p = \<lparr>params_Model = ''gpt-4.1'', params_Messages = [SystemMessage title_rules, UserMessage ''What is the weather in Barcelona?'']\<rparr> then Inr [[CHR 0x22] @ ''Barcelona weather'' @ [CHR 0x22, CHR 0x0A]] else Inl (Error ''unexpected request'')) weather_conversation = title_at_end ''Barcelona weather''"
  by (simp add: assist_Title_def Let_def weather_conversation_def TrimSpace_eval Trim_def
      ReplaceAll_byte_def title_cutset_def ChatModelGPT4_1_def)

lemma assist_Title_no_message:
  "assist_Title cli \<lparr>Title = [], Messages = []\<rparr> = index_out_of_range"
  by (simp add: assist_Title_def)

end
